theory Spec2Isabelle
  imports Complex_Main "HOL-Library.Word"
begin

unbundle bit_operations_syntax

section \<open>Occupancy grid node: pixel packing and cell values\<close>

text \<open>
  The occupancy grid node (\<^verbatim>\<open>Node::HandleSubmapList\<close>, \<^verbatim>\<open>Node::PublishOccupancyGrid\<close>)
  packs every fetched texture pixel into a 32-bit word and later turns every 32-bit word
  of the painted surface into a cell of the published grid.
  Bytes are \<open>8 word\<close>, packed pixels are \<open>32 word\<close>. The C++ \<open>double\<close> arithmetic of
  the cell value is modelled over \<open>real\<close>: for a colour byte \<open>c\<close> the exact value
  \<open>(1 - c / 255) * 100\<close> is a multiple of \<open>1 / 51\<close> that is never half-way between two
  integers, so the rounding error of the double computation cannot change the rounded
  integer.
\<close>

type_synonym uint8 = "8 word"
type_synonym uint32 = "32 word"

text \<open>The ways in which the code stops: a failed \<^verbatim>\<open>CHECK\<close> aborts the process, \<^verbatim>\<open>at()\<close>
  throws \<^verbatim>\<open>std::out_of_range\<close>, and reading outside a buffer or through a null pointer has
  no defined behaviour.\<close>

datatype error = CheckFailed | OutOfRange | Undefined

text \<open>\<^verbatim>\<open>cartographer::common::RoundToInt\<close> is \<^verbatim>\<open>std::lround\<close>: to the nearest integer,
  half-way cases away from zero.\<close>

definition RoundToInt :: "real \<Rightarrow> int" where
  "RoundToInt x = (if 0 \<le> x then \<lfloor>x + 1 / 2\<rfloor> else \<lceil>x - 1 / 2\<rceil>)"

text \<open>Lines 144-148 of the node: the observed flag and the packed pixel
  \<^verbatim>\<open>(alpha << 24) | (intensity << 16) | (observed << 8) | 0\<close>.\<close>

definition observed_of :: "uint8 \<Rightarrow> uint8 \<Rightarrow> uint8" where
  "observed_of intensity alpha = (if intensity = 0 \<and> alpha = 0 then 0 else 255)"

definition pack_pixel :: "uint8 \<Rightarrow> uint8 \<Rightarrow> uint32" where
  "pack_pixel intensity alpha =
     (push_bit 24 (ucast alpha) OR push_bit 16 (ucast intensity) OR
      push_bit 8 (ucast (observed_of intensity alpha)) OR 0)"

text \<open>The loop over \<^verbatim>\<open>fetched_texture->intensity\<close>: \<^verbatim>\<open>alpha.at(i)\<close> throws when the alpha
  sequence is shorter than the intensity sequence.\<close>

fun pack_pixels :: "uint8 list \<Rightarrow> uint8 list \<Rightarrow> error + uint32 list" where
  "pack_pixels [] alphas = Inr []"
| "pack_pixels (i # intensities) [] = Inl OutOfRange"
| "pack_pixels (i # intensities) (a # alphas) =
     (case pack_pixels intensities alphas of
        Inl e \<Rightarrow> Inl e
      | Inr cairo_data \<Rightarrow> Inr (pack_pixel i a # cairo_data))"

text \<open>Lines 202-206 of the node: the colour and observed bytes of a packed pixel and the
  cell value before the range checks.\<close>

definition color_of :: "uint32 \<Rightarrow> uint8" where
  "color_of packed = ucast (drop_bit 16 packed)"

definition observed_byte :: "uint32 \<Rightarrow> uint8" where
  "observed_byte packed = ucast (drop_bit 8 packed)"

text \<open>The byte that line 147 shifts by 24, the alpha channel of the pixel format.
  \<^verbatim>\<open>PublishOccupancyGrid\<close> does not read it.\<close>

definition alpha_of :: "uint32 \<Rightarrow> uint8" where
  "alpha_of packed = ucast (drop_bit 24 packed)"

definition cell_value :: "uint32 \<Rightarrow> int" where
  "cell_value packed =
     (if observed_byte packed = 0 then - 1
      else RoundToInt ((1 - real (unat (color_of packed)) / 255) * 100))"

text \<open>Lines 207-208: \<^verbatim>\<open>CHECK_LE(-1, value); CHECK_GE(100, value);\<close> abort the process when
  they fail; otherwise the value is pushed as it is.\<close>

definition check_value :: "int \<Rightarrow> error + int" where
  "check_value v =
     (if \<not> (- 1 \<le> v) then Inl CheckFailed
      else if \<not> (100 \<ge> v) then Inl CheckFailed
      else Inr v)"

text \<open>The two nested loops of \<^verbatim>\<open>PublishOccupancyGrid\<close>: rows from \<open>height - 1\<close> down to
  \<open>0\<close>, columns from \<open>0\<close> up to \<open>width - 1\<close>, reading \<^verbatim>\<open>pixel_data[y * width + x]\<close>
  from the surface's buffer.\<close>

definition pixel_indices :: "nat \<Rightarrow> nat \<Rightarrow> nat list" where
  "pixel_indices width height =
     concat (map (\<lambda>y. map (\<lambda>x. y * width + x) [0..<width]) (rev [0..<height]))"

fun push_cells :: "uint32 list \<Rightarrow> nat list \<Rightarrow> int list \<Rightarrow> error + int list" where
  "push_cells pixel_data [] data = Inr data"
| "push_cells pixel_data (k # ks) data =
     (if k < length pixel_data
      then (case check_value (cell_value (pixel_data ! k)) of
              Inl e \<Rightarrow> Inl e
            | Inr v \<Rightarrow> push_cells pixel_data ks (data @ [v]))
      else Inl Undefined)"

definition PublishOccupancyGrid :: "nat \<Rightarrow> nat \<Rightarrow> uint32 list \<Rightarrow> error + int list" where
  "PublishOccupancyGrid width height pixel_data =
     push_cells pixel_data (pixel_indices width height) []"


section \<open>Data shared by the two consumers of submap textures\<close>

text \<open>
  \<^verbatim>\<open>Rigid3d\<close> poses are carried around unchanged; only the z coordinate of the translation
  is ever inspected (by \<^verbatim>\<open>SetAlpha\<close>). The result of \<^verbatim>\<open>FetchSubmapTextures\<close> is a null pointer
  (\<open>None\<close>) or a \<^verbatim>\<open>SubmapTextures\<close> value: a version and a list of textures, each with the
  fields the node reads. Fields that a slice of the node also has carry the prefix
  \<open>texture\<close> or \<open>textures\<close> here.
\<close>

record Rigid3d =
  translation :: "real \<times> real \<times> real"
  rotation :: "real \<times> real \<times> real \<times> real"

definition translation_z :: "Rigid3d \<Rightarrow> real" where
  "translation_z p = snd (snd (translation p))"

record SubmapTexture =
  intensity :: "uint8 list"
  alpha :: "uint8 list"
  texture_width :: int
  texture_height :: int
  texture_resolution :: real
  texture_slice_pose :: Rigid3d

record SubmapTextures =
  textures_version :: int
  textures :: "SubmapTexture list"

section \<open>The drawable submap of the visualisation plugin\<close>

text \<open>
  One \<^verbatim>\<open>DrawableSubmap\<close> object is one tile. Every member function below runs with the
  object's mutex held from its first statement to its return, and so does the part of the
  asynchronous fetch task that follows the remote call; each is therefore one atomic step
  on the record of the members (named as in the source, without the trailing underscore).
  The clock value \<open>now\<close> (milliseconds since the epoch) and
  the result of the remote call are inputs of the steps.

  Two fields record what the object has handed to its environment:
  \<open>running_tasks\<close> counts the tasks started with \<^verbatim>\<open>std::async\<close> whose locked final part has
  not run yet, and \<open>emitted\<close> lists, for every \<^verbatim>\<open>Q_EMIT RequestSucceeded()\<close> so far, the value
  that \<^verbatim>\<open>submap_textures_\<close> had at the moment of the emission.
\<close>

record DrawableSubmap =
  metadata_version :: int
  pose :: Rigid3d
  submap_textures :: "SubmapTextures option"
  last_query_timestamp :: int
  query_in_progress :: bool
  current_alpha :: real
  running_tasks :: nat
  emitted :: "SubmapTextures option list"

definition kMinQueryDelayInMs :: int where
  "kMinQueryDelayInMs = 250"

definition kFadeOutStartDistanceInMeters :: real where
  "kFadeOutStartDistanceInMeters = 1"

definition kFadeOutDistanceInMeters :: real where
  "kFadeOutDistanceInMeters = 2"

text \<open>\<^verbatim>\<open>DrawableSubmap::Update\<close>: the new metadata version and pose are stored (the calls
  into the scene graph and the property panel are not modelled).\<close>

definition Update :: "int \<Rightarrow> Rigid3d \<Rightarrow> DrawableSubmap \<Rightarrow> DrawableSubmap" where
  "Update submap_version new_pose s =
     s\<lparr>DrawableSubmap.metadata_version := submap_version, DrawableSubmap.pose := new_pose\<rparr>"

text \<open>The two local flags of \<^verbatim>\<open>MaybeFetchTexture\<close>.\<close>

definition newer_version_available :: "DrawableSubmap \<Rightarrow> bool" where
  "newer_version_available s =
     (case submap_textures s of
        None \<Rightarrow> True
      | Some t \<Rightarrow> textures_version t \<noteq> DrawableSubmap.metadata_version s)"

definition recently_queried :: "int \<Rightarrow> DrawableSubmap \<Rightarrow> bool" where
  "recently_queried now s = (last_query_timestamp s + kMinQueryDelayInMs > now)"

text \<open>\<^verbatim>\<open>DrawableSubmap::MaybeFetchTexture\<close>: the returned flag and the members afterwards.
  Starting the task with \<^verbatim>\<open>std::async\<close> is the increment of \<open>running_tasks\<close>.\<close>

definition MaybeFetchTexture :: "int \<Rightarrow> DrawableSubmap \<Rightarrow> bool \<times> DrawableSubmap" where
  "MaybeFetchTexture now s =
     (if \<not> newer_version_available s \<or> recently_queried now s \<or> query_in_progress s
      then (False, s)
      else (True, s\<lparr>query_in_progress := True,
                     last_query_timestamp := now,
                     running_tasks := running_tasks s + 1\<rparr>))"

text \<open>The statements of the task after the remote call, in program order.\<close>

definition clear_query_in_progress :: "DrawableSubmap \<Rightarrow> DrawableSubmap" where
  "clear_query_in_progress s = s\<lparr>query_in_progress := False\<rparr>"

definition install_textures :: "SubmapTextures \<Rightarrow> DrawableSubmap \<Rightarrow> DrawableSubmap" where
  "install_textures t s = s\<lparr>submap_textures := Some t\<rparr>"

definition emit_RequestSucceeded :: "DrawableSubmap \<Rightarrow> DrawableSubmap" where
  "emit_RequestSucceeded s = s\<lparr>emitted := emitted s @ [submap_textures s]\<rparr>"

definition task_finished :: "DrawableSubmap \<Rightarrow> DrawableSubmap" where
  "task_finished s = s\<lparr>running_tasks := running_tasks s - 1\<rparr>"

text \<open>The locked final part of the task started by \<^verbatim>\<open>MaybeFetchTexture\<close>, for the result
  \<open>fetched\<close> of \<^verbatim>\<open>FetchSubmapTextures\<close>.\<close>

definition fetch_task_completion :: "SubmapTextures option \<Rightarrow> DrawableSubmap \<Rightarrow> DrawableSubmap" where
  "fetch_task_completion fetched s =
     (let s1 = clear_query_in_progress s;
          s2 = (case fetched of
                  None \<Rightarrow> s1
                | Some t \<Rightarrow>
                    if textures t \<noteq> [] then emit_RequestSucceeded (install_textures t s1)
                    else s1)
      in task_finished s2)"

text \<open>\<^verbatim>\<open>DrawableSubmap::UpdateSceneNode\<close>, the slot connected to the signal: the texture it
  hands to the renderer is \<^verbatim>\<open>submap_textures_->textures[0]\<close>; with a null pointer or an
  empty list the read has no defined behaviour.\<close>

definition UpdateSceneNode :: "DrawableSubmap \<Rightarrow> error + SubmapTexture" where
  "UpdateSceneNode s =
     (case submap_textures s of
        None \<Rightarrow> Inl Undefined
      | Some t \<Rightarrow> (case textures t of [] \<Rightarrow> Inl Undefined | x # rest \<Rightarrow> Inr x))"

text \<open>
  \<^verbatim>\<open>DrawableSubmap::SetAlpha\<close> computes in \<^verbatim>\<open>double\<close> and \<^verbatim>\<open>float\<close>. A finite value of
  either type is a real number, and each arithmetic operation and each conversion is the
  exact operation followed by the rounding of the result type: to the nearest value of the
  format, a tie going to the neighbour with an even significand. A format has a precision
  in bits and a range of exponents; below the smallest normal exponent the spacing of the
  values stays that of the lowest binade. The model has finite values only: a result beyond
  the largest finite value is rounded with the spacing of the top binade.
\<close>

record format =
  precision :: nat
  emin :: int
  emax :: int

definition binary32 :: format where
  "binary32 = \<lparr>precision = 24, emin = - 126, emax = 127\<rparr>"

definition binary64 :: format where
  "binary64 = \<lparr>precision = 53, emin = - 1022, emax = 1023\<rparr>"

text \<open>The binade of a positive number \<open>a\<close>: the \<open>e\<close> with \<open>2 powi e \<le> a < 2 powi (e + 1)\<close>,
  searched downwards from \<open>-1\<close> when \<open>a < 1\<close> and upwards from \<open>0\<close> otherwise, and kept
  within the exponent range of the format.\<close>

function expo_down :: "int \<Rightarrow> int \<Rightarrow> real \<Rightarrow> int" where
  "expo_down lo e a = (if e \<le> lo \<or> 2 powi e \<le> a then e else expo_down lo (e - 1) a)"
  by pat_completeness auto
termination
  by (relation "measure (\<lambda>(lo, e, a). nat (e - lo))") auto

function expo_up :: "int \<Rightarrow> int \<Rightarrow> real \<Rightarrow> int" where
  "expo_up hi e a = (if hi \<le> e \<or> a < 2 powi (e + 1) then e else expo_up hi (e + 1) a)"
  by pat_completeness auto
termination
  by (relation "measure (\<lambda>(hi, e, a). nat (hi - e))") auto

declare expo_down.simps [simp del] expo_up.simps [simp del]

definition exponent :: "format \<Rightarrow> real \<Rightarrow> int" where
  "exponent f a = (if 1 \<le> a then expo_up (emax f) 0 a else expo_down (emin f) (- 1) a)"

definition round_half_even :: "real \<Rightarrow> int" where
  "round_half_even y =
     (let n = \<lfloor>y\<rfloor>; r = y - of_int n
      in if r < 1 / 2 then n else if r > 1 / 2 then n + 1 else if even n then n else n + 1)"

definition round_to :: "format \<Rightarrow> real \<Rightarrow> real" where
  "round_to f x =
     (if x = 0 then 0
      else (let q = exponent f \<bar>x\<bar> - (int (precision f) - 1)
            in of_int (round_half_even (x / 2 powi q)) * 2 powi q))"

definition flt :: "real \<Rightarrow> real" where
  "flt x = round_to binary32 x"

definition dbl :: "real \<Rightarrow> real" where
  "dbl x = round_to binary64 x"

text \<open>\<^verbatim>\<open>constexpr float kAlphaUpdateThreshold = 0.2f\<close>: the \<^verbatim>\<open>float\<close> nearest to 0.2.\<close>

definition kAlphaUpdateThreshold :: real where
  "kAlphaUpdateThreshold = flt (2 / 10)"

text \<open>The local \<^verbatim>\<open>target_alpha\<close> of \<^verbatim>\<open>SetAlpha\<close>: two subtractions, a division and a third
  subtraction in \<^verbatim>\<open>double\<close>, then the conversion to \<^verbatim>\<open>float\<close>. \<^verbatim>\<open>std::abs\<close> and \<^verbatim>\<open>std::max\<close>
  do not round.\<close>

definition target_alpha_of :: "DrawableSubmap \<Rightarrow> real \<Rightarrow> real" where
  "target_alpha_of s current_tracking_z =
     (let distance_z = \<bar>dbl (translation_z (DrawableSubmap.pose s) - current_tracking_z)\<bar>;
          fade_distance = max (dbl (distance_z - kFadeOutStartDistanceInMeters)) 0
      in flt (max 0 (dbl (1 - dbl (fade_distance / kFadeOutDistanceInMeters)))))"

text \<open>\<^verbatim>\<open>DrawableSubmap::SetAlpha\<close>: the difference of the two \<^verbatim>\<open>float\<close> values is a \<^verbatim>\<open>float\<close>
  subtraction, compared with the \<^verbatim>\<open>float\<close> threshold.\<close>

definition SetAlpha :: "real \<Rightarrow> DrawableSubmap \<Rightarrow> DrawableSubmap" where
  "SetAlpha current_tracking_z s =
     (let target_alpha = target_alpha_of s current_tracking_z
      in if \<bar>flt (target_alpha - current_alpha s)\<bar> > kAlphaUpdateThreshold \<or>
            target_alpha = 0 \<or> target_alpha = 1
         then s\<lparr>current_alpha := target_alpha\<rparr>
         else s)"

text \<open>Modelled from the spec: the declarations of the members (the class header) are not
  among the sources. A tile that has just been created has no textures and no fetch in
  flight; its metadata version and alpha are set to \<open>-1\<close> and \<open>0\<close> here.
  \<^verbatim>\<open>last_query_timestamp_(0)\<close> is from the constructor's initialiser list.\<close>

definition constructed :: "Rigid3d \<Rightarrow> DrawableSubmap" where
  "constructed p =
     \<lparr>DrawableSubmap.metadata_version = - 1, DrawableSubmap.pose = p, submap_textures = None,
      last_query_timestamp = 0, query_in_progress = False, current_alpha = 0,
      running_tasks = 0, emitted = []\<rparr>"

text \<open>Interleavings of the steps that change the members of one tile. A task can complete
  only while one is running; \<open>run\<close> is \<open>None\<close> for a sequence that completes a task that was
  never started.\<close>

datatype event =
    EvUpdate int Rigid3d
  | EvMaybeFetch int
  | EvComplete "SubmapTextures option"
  | EvSetAlpha real

fun is_completion :: "event \<Rightarrow> bool" where
  "is_completion (EvComplete fetched) = True"
| "is_completion e = False"

fun exec :: "event \<Rightarrow> DrawableSubmap \<Rightarrow> DrawableSubmap option" where
  "exec (EvUpdate v p) s = Some (Update v p s)"
| "exec (EvMaybeFetch now) s = Some (snd (MaybeFetchTexture now s))"
| "exec (EvComplete fetched) s =
     (if running_tasks s = 0 then None else Some (fetch_task_completion fetched s))"
| "exec (EvSetAlpha z) s = Some (SetAlpha z s)"

fun run :: "DrawableSubmap \<Rightarrow> event list \<Rightarrow> DrawableSubmap option" where
  "run s [] = Some s"
| "run s (e # es) = (case exec e s of None \<Rightarrow> None | Some s' \<Rightarrow> run s' es)"

text \<open>The link between the flag and the number of running tasks.\<close>

definition flag_counts_tasks :: "DrawableSubmap \<Rightarrow> bool" where
  "flag_counts_tasks s = (running_tasks s = (if query_in_progress s then 1 else 0))"


section \<open>The occupancy grid node: handling a submap list\<close>

text \<open>
  \<^verbatim>\<open>Node::HandleSubmapList\<close> runs with the node's mutex held. Its inputs from outside the
  node are collected in \<open>services\<close>: the number of subscribers of the grid publisher, the
  answer of \<^verbatim>\<open>FetchSubmapTextures\<close> to the \<open>k\<close>-th request of the call, and the two cairo
  functions whose results are checked. The message carries the poses already converted by
  \<^verbatim>\<open>ToRigid3d\<close>. Next to its outcome the model returns the list of tile ids for which a
  remote request was issued, in order.
\<close>

type_synonym SubmapId = "int \<times> int"

record SubmapEntry =
  trajectory_id :: int
  submap_index :: int
  submap_version :: int
  entry_pose :: Rigid3d

record SubmapList =
  header_stamp :: int
  header_frame_id :: string
  submap :: "SubmapEntry list"

record cairo_surface =
  surface_width :: int
  surface_height :: int
  surface_stride :: int

record SubmapSlice =
  width :: int
  height :: int
  version :: int
  resolution :: real
  slice_pose :: Rigid3d
  surface :: "cairo_surface option"
  cairo_data :: "uint32 list"
  pose :: Rigid3d
  metadata_version :: int

record services =
  num_subscribers :: nat
  fetch :: "nat \<Rightarrow> SubmapId \<Rightarrow> SubmapTextures option"
  stride_for_width :: "int \<Rightarrow> int"
  surface_status_success :: "cairo_surface \<Rightarrow> bool"

record Node =
  submap_slices :: "SubmapId \<Rightarrow> SubmapSlice option"
  last_frame_id :: string
  last_timestamp :: int

definition identity_pose :: Rigid3d where
  "identity_pose = \<lparr>translation = (0, 0, 0), rotation = (1, 0, 0, 0)\<rparr>"

text \<open>Modelled from the spec: the declaration of \<^verbatim>\<open>SubmapSlice\<close> is not among the sources.
  The slice that \<^verbatim>\<open>submap_slices_[id]\<close> creates for an id not yet in the table has no surface
  and no pixel data; its numbers are zero and its metadata version is \<open>-1\<close> here.\<close>

definition new_slice :: SubmapSlice where
  "new_slice =
     \<lparr>width = 0, height = 0, version = 0, resolution = 0, slice_pose = identity_pose,
      surface = None, cairo_data = [], SubmapSlice.pose = identity_pose,
      SubmapSlice.metadata_version = - 1\<rparr>"

text \<open>Lines 111-112: the slice already holds a surface of the listed version.\<close>

definition up_to_date :: "SubmapSlice \<Rightarrow> int \<Rightarrow> bool" where
  "up_to_date submap_slice listed_version =
     (surface submap_slice \<noteq> None \<and> version submap_slice = listed_version)"

text \<open>Lines 121-159: what the loop body does with a non-null fetch result.\<close>

definition install_fetched ::
  "services \<Rightarrow> SubmapTextures \<Rightarrow> SubmapSlice \<Rightarrow> error + SubmapSlice" where
  "install_fetched env fetched_textures submap_slice =
     (case textures fetched_textures of
        [] \<Rightarrow> Inl CheckFailed
      | fetched_texture # rest \<Rightarrow>
          (let slice1 = submap_slice
                 \<lparr>version := textures_version fetched_textures,
                  width := texture_width fetched_texture,
                  height := texture_height fetched_texture,
                  slice_pose := texture_slice_pose fetched_texture,
                  resolution := texture_resolution fetched_texture\<rparr>;
               expected_stride = 4 * width slice1
           in if expected_stride \<noteq> stride_for_width env (width slice1) then Inl CheckFailed
              else (case pack_pixels (intensity fetched_texture) (alpha fetched_texture) of
                      Inl e \<Rightarrow> Inl e
                    | Inr packed \<Rightarrow>
                        (let new_surface =
                               \<lparr>surface_width = width slice1,
                                surface_height = height slice1,
                                surface_stride = expected_stride\<rparr>;
                             slice2 = slice1\<lparr>cairo_data := packed, surface := Some new_surface\<rparr>
                         in if surface_status_success env new_surface then Inr slice2
                            else Inl CheckFailed))))"

text \<open>The loop over \<^verbatim>\<open>msg->submap\<close>, with the requests issued so far and the slice table.\<close>

fun handle_submaps ::
  "services \<Rightarrow> SubmapEntry list \<Rightarrow> SubmapId list \<Rightarrow> (SubmapId \<Rightarrow> SubmapSlice option) \<Rightarrow>
   SubmapId list \<times> (error + (SubmapId \<Rightarrow> SubmapSlice option))" where
  "handle_submaps env [] requests slices = (requests, Inr slices)"
| "handle_submaps env (submap_msg # rest) requests slices =
     (let id = (trajectory_id submap_msg, submap_index submap_msg);
          submap_slice = (case slices id of None \<Rightarrow> new_slice | Some sl \<Rightarrow> sl)
            \<lparr>SubmapSlice.pose := entry_pose submap_msg,
             SubmapSlice.metadata_version := submap_version submap_msg\<rparr>
      in if up_to_date submap_slice (submap_version submap_msg)
         then handle_submaps env rest requests (slices(id \<mapsto> submap_slice))
         else (case fetch env (length requests) id of
                 None \<Rightarrow> handle_submaps env rest (requests @ [id]) (slices(id \<mapsto> submap_slice))
               | Some fetched_textures \<Rightarrow>
                   (case install_fetched env fetched_textures submap_slice of
                      Inl e \<Rightarrow> (requests @ [id], Inl e)
                    | Inr slice2 \<Rightarrow>
                        handle_submaps env rest (requests @ [id]) (slices(id \<mapsto> slice2)))))"

definition HandleSubmapList ::
  "services \<Rightarrow> SubmapList \<Rightarrow> Node \<Rightarrow> SubmapId list \<times> (error + Node)" where
  "HandleSubmapList env msg node =
     (if num_subscribers env = 0 then ([], Inr node)
      else (case handle_submaps env (submap msg) [] (submap_slices node) of
              (requests, Inl e) \<Rightarrow> (requests, Inl e)
            | (requests, Inr slices) \<Rightarrow>
                (requests,
                 Inr (node\<lparr>submap_slices := slices,
                           last_timestamp := header_stamp msg,
                           last_frame_id := header_frame_id msg\<rparr>))))"


text \<open>
  \<^verbatim>\<open>Node::DrawAndPublish\<close> publishes nothing while the slice table or the last frame id is
  empty. Otherwise it hands the slice table and the resolution to \<^verbatim>\<open>PaintSubmapSlices\<close>, a
  function of the mapping library, and publishes the surface that comes back. The painter
  is a parameter of the model; of its result only the surface (width, height and pixel
  buffer) is kept, and of the published message only the cell array.
\<close>

record PaintSubmapSlicesResult =
  painted_width :: nat
  painted_height :: nat
  painted_data :: "uint32 list"

definition DrawAndPublish ::
  "((SubmapId \<Rightarrow> SubmapSlice option) \<Rightarrow> real \<Rightarrow> PaintSubmapSlicesResult) \<Rightarrow> real \<Rightarrow> Node \<Rightarrow>
   (error + int list) option" where
  "DrawAndPublish PaintSubmapSlices grid_resolution node =
     (if submap_slices node = Map.empty \<or> last_frame_id node = [] then None
      else (let painted_slices = PaintSubmapSlices (submap_slices node) grid_resolution
            in Some (PublishOccupancyGrid (painted_width painted_slices)
                       (painted_height painted_slices) (painted_data painted_slices))))"

section \<open>Concrete tiles, messages and services\<close>

definition tile0 :: DrawableSubmap where
  "tile0 = constructed identity_pose"

definition tile_half :: DrawableSubmap where
  "tile_half = tile0\<lparr>current_alpha := 1 / 2\<rparr>"

definition tile_listed :: DrawableSubmap where
  "tile_listed = tile0\<lparr>DrawableSubmap.metadata_version := 3\<rparr>"

definition tile_fetching :: DrawableSubmap where
  "tile_fetching =
     tile_listed\<lparr>query_in_progress := True, last_query_timestamp := 1000, running_tasks := 1\<rparr>"

definition tile_fetching_newer :: DrawableSubmap where
  "tile_fetching_newer = tile_fetching\<lparr>DrawableSubmap.metadata_version := 4\<rparr>"

definition one_texture :: SubmapTexture where
  "one_texture =
     \<lparr>intensity = [255], alpha = [255], texture_width = 1, texture_height = 1,
      texture_resolution = 5 / 100, texture_slice_pose = identity_pose\<rparr>"

definition data_v3 :: SubmapTextures where
  "data_v3 = \<lparr>textures_version = 3, textures = [one_texture]\<rparr>"

definition data_v5 :: SubmapTextures where
  "data_v5 = \<lparr>textures_version = 5, textures = [one_texture]\<rparr>"

definition empty_v5 :: SubmapTextures where
  "empty_v5 = \<lparr>textures_version = 5, textures = []\<rparr>"

definition entry_v2 :: SubmapEntry where
  "entry_v2 =
     \<lparr>trajectory_id = 0, submap_index = 1, submap_version = 2, entry_pose = identity_pose\<rparr>"

definition list_v2 :: SubmapList where
  "list_v2 = \<lparr>header_stamp = 42, header_frame_id = ''map'', submap = [entry_v2]\<rparr>"

definition slice_v5 :: SubmapSlice where
  "slice_v5 =
     new_slice\<lparr>version := 5, width := 1, height := 1,
       surface := Some \<lparr>surface_width = 1, surface_height = 1, surface_stride = 4\<rparr>,
       cairo_data := [pack_pixel 255 255]\<rparr>"

definition node0 :: Node where
  "node0 = \<lparr>submap_slices = Map.empty, last_frame_id = [], last_timestamp = 0\<rparr>"

definition node_v5 :: Node where
  "node_v5 = node0\<lparr>submap_slices := [(0, 1) \<mapsto> slice_v5]\<rparr>"

definition failing_services :: services where
  "failing_services =
     \<lparr>num_subscribers = 1, fetch = (\<lambda>k id. None),
      stride_for_width = (\<lambda>w. 4 * w), surface_status_success = (\<lambda>sf. True)\<rparr>"

definition empty_list_services :: services where
  "empty_list_services = failing_services\<lparr>fetch := (\<lambda>k id. Some empty_v5)\<rparr>"

definition unsubscribed_services :: services where
  "unsubscribed_services =
     failing_services\<lparr>num_subscribers := 0, fetch := (\<lambda>k id. Some data_v5)\<rparr>"

definition tile_fifth :: DrawableSubmap where
  "tile_fifth = tile0\<lparr>current_alpha := 13421773 / 67108864\<rparr>"

definition texture_2x2 :: SubmapTextures where
  "texture_2x2 =
     \<lparr>textures_version = 2,
      textures = [\<lparr>intensity = [0, 255, 0, 128], alpha = [0, 1, 9, 255],
                   texture_width = 2, texture_height = 2, texture_resolution = 5 / 100,
                   texture_slice_pose = identity_pose\<rparr>]\<rparr>"

definition texture_services :: services where
  "texture_services = failing_services\<lparr>fetch := (\<lambda>k id. Some texture_2x2)\<rparr>"

definition node_published :: Node where
  "node_published = node_v5\<lparr>last_frame_id := ''map''\<rparr>"

definition opaque_unobserved_painter ::
  "(SubmapId \<Rightarrow> SubmapSlice option) \<Rightarrow> real \<Rightarrow> PaintSubmapSlicesResult" where
  "opaque_unobserved_painter slices grid_resolution =
     \<lparr>painted_width = 1, painted_height = 1, painted_data = [0xFF800000]\<rparr>"

definition flagged_painter ::
  "(SubmapId \<Rightarrow> SubmapSlice option) \<Rightarrow> real \<Rightarrow> PaintSubmapSlicesResult" where
  "flagged_painter slices grid_resolution =
     \<lparr>painted_width = 1, painted_height = 1, painted_data = [0x00000100]\<rparr>"

definition copying_painter ::
  "(SubmapId \<Rightarrow> SubmapSlice option) \<Rightarrow> real \<Rightarrow> PaintSubmapSlicesResult" where
  "copying_painter slices grid_resolution =
     (case slices (0, 1) of
        None \<Rightarrow> \<lparr>painted_width = 0, painted_height = 0, painted_data = []\<rparr>
      | Some sl \<Rightarrow> \<lparr>painted_width = nat (width sl), painted_height = nat (height sl),
                     painted_data = cairo_data sl\<rparr>)"

definition painted_2x2 :: "uint32 list" where
  "painted_2x2 = [0, 0x01FFFF00, 0x0900FF00, 0xFF80FF00]"

definition slice_2x2 :: SubmapSlice where
  "slice_2x2 =
     slice_v5\<lparr>SubmapSlice.metadata_version := 2, version := 2, width := 2, height := 2,
       resolution := 5 / 100, cairo_data := painted_2x2,
       surface := Some \<lparr>surface_width = 2, surface_height = 2, surface_stride = 8\<rparr>\<rparr>"

definition node_2x2 :: Node where
  "node_2x2 = node_published\<lparr>submap_slices := [(0, 1) \<mapsto> slice_2x2], last_timestamp := 42\<rparr>"

text \<open>The \<^verbatim>\<open>double\<close> nearest to 1.9.\<close>

definition double_1_9 :: real where
  "double_1_9 = 4278419646001971 / 2251799813685248"


section \<open>Facts about packed pixels and cell values\<close>

lemma color_of_pack_pixel: "color_of (pack_pixel i a) = i"
  unfolding color_of_def pack_pixel_def
  by (rule bit_word_eqI) (auto simp: bit_simps dest: bit_imp_le_length)

lemma observed_byte_pack_pixel: "observed_byte (pack_pixel i a) = observed_of i a"
  unfolding observed_byte_def pack_pixel_def
  by (rule bit_word_eqI) (auto simp: bit_simps dest: bit_imp_le_length)

lemma RoundToInt_round: "0 \<le> x \<Longrightarrow> RoundToInt x = round x"
  by (simp add: RoundToInt_def round_def)

lemma byte_le_255: "real (unat (c :: uint8)) \<le> 255"
proof -
  have "unat c < 2 ^ 8"
    using unsigned_less [of c, where 'a = nat] by simp
  then have "unat c \<le> 255"
    by simp
  then show ?thesis
    by (metis of_nat_le_iff of_nat_numeral)
qed

lemma scaled_byte_bounds:
  fixes c :: uint8
  defines "x \<equiv> (1 - real (unat c) / 255) * 100"
  shows "0 \<le> x" and "x \<le> 100"
proof -
  define b where "b = real (unat c)"
  have b: "b \<le> 255"
    unfolding b_def by (rule byte_le_255)
  have b0: "0 \<le> b"
    unfolding b_def by (rule of_nat_0_le_iff)
  have x: "x = (1 - b / 255) * 100"
    unfolding x_def b_def ..
  show "0 \<le> x"
    unfolding x using b b0 by simp
  show "x \<le> 100"
    unfolding x using b b0 by simp
qed

lemma round_byte_bounds:
  fixes c :: uint8
  shows "0 \<le> round ((1 - real (unat c) / 255) * 100)"
    and "round ((1 - real (unat c) / 255) * 100) \<le> 100"
proof -
  let ?x = "(1 - real (unat c) / 255) * 100"
  have "round (0::real) \<le> round ?x"
    using scaled_byte_bounds(1) [of c] by (rule round_mono)
  then show "0 \<le> round ?x"
    by simp
  have "round ?x \<le> round (100::real)"
    using scaled_byte_bounds(2) [of c] by (rule round_mono)
  then show "round ?x \<le> 100"
    by simp
qed

lemma cell_value_alt:
  "cell_value packed =
     (if observed_byte packed = 0 then - 1
      else round ((1 - real (unat (color_of packed)) / 255) * 100))"
  unfolding cell_value_def
  using RoundToInt_round [OF scaled_byte_bounds(1) [of "color_of packed"]] by presburger

lemma cell_value_range:
  "cell_value packed = - 1 \<or> (0 \<le> cell_value packed \<and> cell_value packed \<le> 100)"
  unfolding cell_value_alt
  using round_byte_bounds [of "color_of packed"] by presburger

lemma check_value_cell: "check_value (cell_value packed) = Inr (cell_value packed)"
  using cell_value_range [of packed] by (auto simp: check_value_def)

lemma push_cells_all:
  "\<forall>k \<in> set ks. k < length pixel_data \<Longrightarrow>
     push_cells pixel_data ks data = Inr (data @ map (\<lambda>k. cell_value (pixel_data ! k)) ks)"
  by (induction ks arbitrary: data) (simp_all add: check_value_cell)

lemma pixel_index_in_range:
  fixes k y w h :: nat
  assumes "y < h" and "k < w + y * w"
  shows "k < w * h"
proof -
  have "w + y * w = Suc y * w"
    by simp
  also have "\<dots> \<le> h * w"
    using assms(1) by (intro mult_le_mono1) simp
  finally have "w + y * w \<le> w * h"
    by (simp add: mult.commute)
  with assms(2) show ?thesis
    by simp
qed

lemma pixel_indices_in_range: "\<forall>k \<in> set (pixel_indices w h). k < w * h"
  by (auto simp: pixel_indices_def pixel_index_in_range)

lemma length_pixel_indices: "length (pixel_indices w h) = w * h"
  by (simp add: pixel_indices_def length_concat comp_def sum_list_triv)

lemma pack_pixels_nth:
  "pack_pixels ins als = Inr data \<Longrightarrow>
     length data = length ins
     \<and> (\<forall>k < length ins. k < length als \<and> data ! k = pack_pixel (ins ! k) (als ! k))"
proof (induction ins als arbitrary: data rule: pack_pixels.induct)
  case (1 alphas)
  then show ?case
    by simp
next
  case (2 i intensities)
  then show ?case
    by simp
next
  case (3 i intensities a alphas)
  from "3.prems" obtain tl where tl: "pack_pixels intensities alphas = Inr tl"
    and data: "data = pack_pixel i a # tl"
    by (auto split: sum.splits)
  from "3.IH" [OF tl] have ih: "length tl = length intensities"
    "\<forall>k < length intensities.
       k < length alphas \<and> tl ! k = pack_pixel (intensities ! k) (alphas ! k)"
    by simp_all
  show ?case
    unfolding data using ih by (auto simp: nth_Cons split: nat.splits)
qed

lemma alpha_of_pack_pixel: "alpha_of (pack_pixel i a) = a"
  unfolding alpha_of_def pack_pixel_def
  by (rule bit_word_eqI) (auto simp: bit_simps dest: bit_imp_le_length)

lemma cell_value_pack_pixel:
  "cell_value (pack_pixel i a) =
     (if i = 0 \<and> a = 0 then - 1 else round ((1 - real (unat i) / 255) * 100))"
  unfolding cell_value_alt color_of_pack_pixel observed_byte_pack_pixel
  by (simp add: observed_of_def)

lemma publish_decodes:
  assumes "length pixel_data = w * h"
  shows "PublishOccupancyGrid w h pixel_data =
           Inr (map (\<lambda>k. if observed_byte (pixel_data ! k) = 0 then - 1
                          else round ((1 - real (unat (color_of (pixel_data ! k))) / 255) * 100))
                  (pixel_indices w h))"
proof -
  have "\<forall>k \<in> set (pixel_indices w h). k < length pixel_data"
    using assms pixel_indices_in_range [of w h] by simp
  then have "PublishOccupancyGrid w h pixel_data =
      Inr (map (\<lambda>k. cell_value (pixel_data ! k)) (pixel_indices w h))"
    by (simp add: PublishOccupancyGrid_def push_cells_all)
  then show ?thesis
    by (simp only: cell_value_alt)
qed

lemma install_fetched_packs:
  assumes "install_fetched env ft sl = Inr sl'" and "textures ft = t # rest"
  shows "pack_pixels (intensity t) (alpha t) = Inr (cairo_data sl')"
  using assms
  by (auto simp: install_fetched_def Let_def split: if_splits sum.splits)

lemma stored_pixel:
  assumes "pack_pixels ins als = Inr data" and "k < length ins"
  shows "color_of (data ! k) = ins ! k" and "alpha_of (data ! k) = als ! k"
    and "observed_byte (data ! k) = (if ins ! k = 0 \<and> als ! k = 0 then 0 else 255)"
    and "cell_value (data ! k) =
           (if ins ! k = 0 \<and> als ! k = 0 then - 1
            else round ((1 - real (unat (ins ! k)) / 255) * 100))"
proof -
  from pack_pixels_nth [OF assms(1)] assms(2)
  have d: "data ! k = pack_pixel (ins ! k) (als ! k)"
    by simp
  show "color_of (data ! k) = ins ! k"
    unfolding d by (rule color_of_pack_pixel)
  show "alpha_of (data ! k) = als ! k"
    unfolding d by (rule alpha_of_pack_pixel)
  show "observed_byte (data ! k) = (if ins ! k = 0 \<and> als ! k = 0 then 0 else 255)"
    unfolding d by (simp add: observed_byte_pack_pixel observed_of_def)
  show "cell_value (data ! k) =
           (if ins ! k = 0 \<and> als ! k = 0 then - 1
            else round ((1 - real (unat (ins ! k)) / 255) * 100))"
    unfolding d by (rule cell_value_pack_pixel)
qed

section \<open>The claims about the occupancy grid node\<close>

text \<open>
  C1, as the code has it. Every cell of the published grid is decided by two bytes of the
  painted pixel: it is \<open>-1\<close> when the observed byte is 0 and \<open>round ((1 - c / 255) * 100)\<close>
  otherwise, \<open>c\<close> being the colour byte; \<^verbatim>\<open>DrawAndPublish\<close> publishes the painter's surface in
  this way. When \<^verbatim>\<open>HandleSubmapList\<close> installs a fetched texture, the pixel it stores for
  intensity \<open>i\<close> and alpha \<open>a\<close> has colour byte \<open>i\<close>, alpha byte \<open>a\<close>, and observed byte 0
  exactly when \<open>i\<close> and \<open>a\<close> are both 0 (255 otherwise). Read back unchanged, a stored
  pixel therefore gives \<open>-1\<close> when both bytes are 0 and \<open>round ((1 - i / 255) * 100)\<close>
  otherwise: intensity 0 with alpha 0 gives \<open>-1\<close>, intensity 255 with nonzero alpha gives
  0, and intensity 0 with nonzero alpha gives 100.
\<close>

theorem occupancy_value_mapping:
  "(length pixel_data = w * h \<longrightarrow>
      PublishOccupancyGrid w h pixel_data =
        Inr (map (\<lambda>k. if observed_byte (pixel_data ! k) = 0 then - 1
                       else round ((1 - real (unat (color_of (pixel_data ! k))) / 255) * 100))
               (pixel_indices w h)))
   \<and> (submap_slices node \<noteq> Map.empty \<and> last_frame_id node \<noteq> [] \<longrightarrow>
        DrawAndPublish paint res node =
          Some (PublishOccupancyGrid (painted_width (paint (submap_slices node) res))
                  (painted_height (paint (submap_slices node) res))
                  (painted_data (paint (submap_slices node) res))))
   \<and> (install_fetched env ft sl = Inr sl' \<and> textures ft = t # rest \<longrightarrow>
        pack_pixels (intensity t) (alpha t) = Inr (cairo_data sl'))
   \<and> (pack_pixels ins als = Inr data \<and> k < length ins \<longrightarrow>
        color_of (data ! k) = ins ! k \<and> alpha_of (data ! k) = als ! k
        \<and> observed_byte (data ! k) = (if ins ! k = 0 \<and> als ! k = 0 then 0 else 255)
        \<and> cell_value (data ! k) =
            (if ins ! k = 0 \<and> als ! k = 0 then - 1
             else round ((1 - real (unat (ins ! k)) / 255) * 100)))
   \<and> cell_value (pack_pixel 0 0) = - 1
   \<and> (a \<noteq> 0 \<longrightarrow> cell_value (pack_pixel 255 a) = 0)
   \<and> (a \<noteq> 0 \<longrightarrow> cell_value (pack_pixel 0 a) = 100)"
proof -
  have full: "round ((1 - real (unat (255 :: uint8)) / 255) * 100) = 0"
    by simp
  have none: "round ((1 - real (unat (0 :: uint8)) / 255) * 100) = 100"
    by simp
  have inst: "cell_value (pack_pixel 0 0) = - 1
      \<and> (a \<noteq> 0 \<longrightarrow> cell_value (pack_pixel 255 a) = 0)
      \<and> (a \<noteq> 0 \<longrightarrow> cell_value (pack_pixel 0 a) = 100)"
    unfolding cell_value_pack_pixel using full none by simp
  have draw: "DrawAndPublish paint res node =
          Some (PublishOccupancyGrid (painted_width (paint (submap_slices node) res))
                  (painted_height (paint (submap_slices node) res))
                  (painted_data (paint (submap_slices node) res)))"
    if "submap_slices node \<noteq> Map.empty \<and> last_frame_id node \<noteq> []"
    using that by (simp add: DrawAndPublish_def Let_def)
  show ?thesis
    using publish_decodes [of pixel_data w h] draw
      install_fetched_packs [of env ft sl sl' t rest]
      stored_pixel [of ins als data k] inst
    by blast
qed

theorem occupancy_value_mapping_witness:
  "length painted_2x2 = 2 * 2
   \<and> PublishOccupancyGrid 2 2 painted_2x2 = Inr [100, 50, - 1, 0]
   \<and> install_fetched texture_services texture_2x2
        (slice_v5\<lparr>SubmapSlice.metadata_version := 2\<rparr>) = Inr slice_2x2
   \<and> pack_pixels [0, 255, 0, 128] [0, 1, 9, 255] = Inr painted_2x2
   \<and> HandleSubmapList texture_services list_v2 node_published = ([(0, 1)], Inr node_2x2)
   \<and> DrawAndPublish copying_painter (5 / 100) node_2x2 = Some (Inr [100, 50, - 1, 0])
   \<and> color_of (painted_2x2 ! 3) = 128 \<and> alpha_of (painted_2x2 ! 3) = 255
   \<and> observed_byte (painted_2x2 ! 3) = 255 \<and> cell_value (painted_2x2 ! 3) = 50
   \<and> cell_value (pack_pixel 0 0) = - 1
   \<and> cell_value (pack_pixel 255 7) = 0 \<and> cell_value (pack_pixel 0 7) = 100"
proof -
  let ?t = "\<lparr>intensity = [0, 255, 0, 128], alpha = [0, 1, 9, 255],
                   texture_width = 2, texture_height = 2, texture_resolution = 5 / 100,
                   texture_slice_pose = identity_pose\<rparr>"
  note th = occupancy_value_mapping
    [of painted_2x2 2 2 node_2x2 copying_painter "5 / 100" texture_services texture_2x2
        "slice_v5\<lparr>SubmapSlice.metadata_version := 2\<rparr>" slice_2x2 ?t "[]"
        "[0, 255, 0, 128]" "[0, 1, 9, 255]" painted_2x2 3 7]
  have len: "length painted_2x2 = 2 * 2"
    by (simp add: painted_2x2_def)
  have inst: "install_fetched texture_services texture_2x2
        (slice_v5\<lparr>SubmapSlice.metadata_version := 2\<rparr>) = Inr slice_2x2"
    by (simp add: install_fetched_def texture_2x2_def texture_services_def failing_services_def
        slice_2x2_def slice_v5_def new_slice_def painted_2x2_def pack_pixel_def observed_of_def
        Let_def)
  have tex: "textures texture_2x2 = ?t # []"
    by (simp add: texture_2x2_def)
  have nonempty: "submap_slices node_2x2 \<noteq> Map.empty \<and> last_frame_id node_2x2 \<noteq> []"
    by (simp add: node_2x2_def node_published_def)
  have painted: "paint_result = copying_painter (submap_slices node_2x2) (5 / 100) \<Longrightarrow>
      painted_width paint_result = 2 \<and> painted_height paint_result = 2
      \<and> painted_data paint_result = painted_2x2" for paint_result
    by (simp add: copying_painter_def node_2x2_def slice_2x2_def)
  from th len have grid: "PublishOccupancyGrid 2 2 painted_2x2 =
        Inr (map (\<lambda>k. if observed_byte (painted_2x2 ! k) = 0 then - 1
                       else round ((1 - real (unat (color_of (painted_2x2 ! k))) / 255) * 100))
               (pixel_indices 2 2))"
    by blast
  have cells: "PublishOccupancyGrid 2 2 painted_2x2 = Inr [100, 50, - 1, 0]"
    unfolding grid
    by (simp add: pixel_indices_def painted_2x2_def observed_byte_def color_of_def round_def
        upt_rec [of _ "numeral _"] upt_rec [of _ "Suc _"])
  from th nonempty have "DrawAndPublish copying_painter (5 / 100) node_2x2 =
          Some (PublishOccupancyGrid
                  (painted_width (copying_painter (submap_slices node_2x2) (5 / 100)))
                  (painted_height (copying_painter (submap_slices node_2x2) (5 / 100)))
                  (painted_data (copying_painter (submap_slices node_2x2) (5 / 100))))"
    by blast
  with painted [OF refl] cells
  have draw: "DrawAndPublish copying_painter (5 / 100) node_2x2 = Some (Inr [100, 50, - 1, 0])"
    by simp
  from th inst tex have packed: "pack_pixels (intensity ?t) (alpha ?t) = Inr (cairo_data slice_2x2)"
    by blast
  then have packed': "pack_pixels [0, 255, 0, 128] [0, 1, 9, 255] = Inr painted_2x2"
    by (simp add: slice_2x2_def)
  from th packed' have px: "color_of (painted_2x2 ! 3) = [0, 255, 0, 128] ! 3
      \<and> alpha_of (painted_2x2 ! 3) = [0, 1, 9, 255] ! 3
      \<and> observed_byte (painted_2x2 ! 3) =
          (if [0, 255, 0, 128 :: uint8] ! 3 = 0 \<and> [0, 1, 9, 255 :: uint8] ! 3 = 0 then 0 else 255)
      \<and> cell_value (painted_2x2 ! 3) =
            (if [0, 255, 0, 128 :: uint8] ! 3 = 0 \<and> [0, 1, 9, 255 :: uint8] ! 3 = 0 then - 1
             else round ((1 - real (unat ([0, 255, 0, 128 :: uint8] ! 3)) / 255) * 100))"
    by simp
  then have px': "color_of (painted_2x2 ! 3) = 128 \<and> alpha_of (painted_2x2 ! 3) = 255
      \<and> observed_byte (painted_2x2 ! 3) = 255 \<and> cell_value (painted_2x2 ! 3) = 50"
    by (simp add: round_def)
  from th have insts: "cell_value (pack_pixel 0 0) = - 1
      \<and> cell_value (pack_pixel 255 7) = 0 \<and> cell_value (pack_pixel 0 7) = 100"
    by simp
  have node: "HandleSubmapList texture_services list_v2 node_published = ([(0, 1)], Inr node_2x2)"
    using inst
    by (simp add: HandleSubmapList_def texture_services_def failing_services_def list_v2_def
        entry_v2_def node_published_def node_v5_def node0_def node_2x2_def up_to_date_def
        slice_v5_def new_slice_def Let_def identity_pose_def)
  from len cells inst packed' node draw px' insts show ?thesis
    by simp
qed

text \<open>
  C1, as stated, fails on the painted surface. A painted pixel with colour byte 128 and
  alpha byte 255 whose observed byte is 0 is published as \<open>-1\<close>, not as 50; a painted
  pixel with colour byte 0 and alpha byte 0 whose observed byte is not 0 is published as
  100, not as \<open>-1\<close>.
\<close>

theorem painted_pixel_decided_by_observed_byte:
  "color_of 0xFF800000 = 128 \<and> alpha_of 0xFF800000 = 255
   \<and> round ((1 - real (unat (128 :: uint8)) / 255) * 100) = (50 :: int)
   \<and> PublishOccupancyGrid 1 1 [0xFF800000] = Inr [- 1]
   \<and> DrawAndPublish opaque_unobserved_painter (5 / 100) node_published = Some (Inr [- 1])
   \<and> color_of 0x00000100 = 0 \<and> alpha_of 0x00000100 = 0
   \<and> PublishOccupancyGrid 1 1 [0x00000100] = Inr [100]
   \<and> DrawAndPublish flagged_painter (5 / 100) node_published = Some (Inr [100])"
  by (simp add: color_of_def alpha_of_def observed_byte_def cell_value_def check_value_def
      RoundToInt_def round_def PublishOccupancyGrid_def pixel_indices_def DrawAndPublish_def
      opaque_unobserved_painter_def flagged_painter_def node_published_def node_v5_def
      node0_def Let_def)

text \<open>
  C9. Every cell that \<^verbatim>\<open>PublishOccupancyGrid\<close> publishes is \<open>-1\<close> or lies between 0 and
  100: for a surface whose buffer holds \<open>w * h\<close> packed pixels the function returns
  \<open>w * h\<close> cells, all in that range, and neither range check fails, because
  \<open>round ((1 - c / 255) * 100)\<close> lies between 0 and 100 for every byte \<open>c\<close>. The checks
  themselves let a value between \<open>-1\<close> and 100 through unchanged and abort on any other
  value; nothing is clamped.
\<close>

theorem published_cells_in_range:
  assumes "length pixel_data = w * h"
  shows "(\<exists>data. PublishOccupancyGrid w h pixel_data = Inr data
         \<and> length data = w * h
         \<and> (\<forall>v \<in> set data. v = - 1 \<or> (0 \<le> v \<and> v \<le> 100)))
     \<and> 0 \<le> round ((1 - real (unat (c :: uint8)) / 255) * 100)
     \<and> round ((1 - real (unat c) / 255) * 100) \<le> 100
     \<and> check_value (cell_value packed) = Inr (cell_value packed)
     \<and> check_value x = (if - 1 \<le> x \<and> x \<le> 100 then Inr x else Inl CheckFailed)"
proof -
  let ?data = "map (\<lambda>k. cell_value (pixel_data ! k)) (pixel_indices w h)"
  have "\<forall>k \<in> set (pixel_indices w h). k < length pixel_data"
    using assms pixel_indices_in_range [of w h] by simp
  then have "PublishOccupancyGrid w h pixel_data = Inr ?data"
    by (simp add: PublishOccupancyGrid_def push_cells_all)
  moreover have "length ?data = w * h"
    by (simp add: length_pixel_indices)
  moreover have "\<forall>v \<in> set ?data. v = - 1 \<or> (0 \<le> v \<and> v \<le> 100)"
    using cell_value_range by auto
  ultimately have grid: "\<exists>data. PublishOccupancyGrid w h pixel_data = Inr data
         \<and> length data = w * h
         \<and> (\<forall>v \<in> set data. v = - 1 \<or> (0 \<le> v \<and> v \<le> 100))"
    by blast
  have checks: "check_value x = (if - 1 \<le> x \<and> x \<le> 100 then Inr x else Inl CheckFailed)"
    by (simp add: check_value_def)
  show ?thesis
    using grid round_byte_bounds [of c] check_value_cell [of packed] checks by blast
qed

theorem published_cells_in_range_witness:
  "length painted_2x2 = 2 * 2
   \<and> PublishOccupancyGrid 2 2 painted_2x2 = Inr [100, 50, - 1, 0]
   \<and> check_value 101 = Inl CheckFailed
   \<and> check_value (- 2) = Inl CheckFailed"
proof -
  have len: "length painted_2x2 = 2 * 2"
    by (simp add: painted_2x2_def)
  have cells: "PublishOccupancyGrid 2 2 painted_2x2 = Inr [100, 50, - 1, 0]"
    by (simp add: PublishOccupancyGrid_def pixel_indices_def painted_2x2_def check_value_def
        cell_value_def color_of_def observed_byte_def RoundToInt_def
        upt_rec [of _ "numeral _"] upt_rec [of _ "Suc _"])
  show ?thesis
    using published_cells_in_range [OF len, of 0 0 101]
      published_cells_in_range [OF len, of 0 0 "- 2"] len cells
    by simp
qed

text \<open>
  C10. With no subscriber of the grid publisher \<^verbatim>\<open>HandleSubmapList\<close> returns at once: the
  node (slice table with its poses, versions and surfaces, last frame id and time stamp)
  is unchanged and no remote request is issued, whatever the message lists.
\<close>

theorem no_subscribers_no_work:
  "num_subscribers env = 0 \<Longrightarrow> HandleSubmapList env msg node = ([], Inr node)"
  by (simp add: HandleSubmapList_def)

theorem no_subscribers_no_work_witness:
  "num_subscribers unsubscribed_services = 0
   \<and> HandleSubmapList unsubscribed_services list_v2 node_v5 = ([], Inr node_v5)"
proof -
  have h: "num_subscribers unsubscribed_services = 0"
    by (simp add: unsubscribed_services_def)
  from no_subscribers_no_work [OF h] h show ?thesis
    by simp
qed


section \<open>Facts about the slice table\<close>

lemma up_to_date_metadata:
  "up_to_date (sl\<lparr>SubmapSlice.pose := p, SubmapSlice.metadata_version := v'\<rparr>) v =
     up_to_date sl v"
  by (simp add: up_to_date_def)

lemma handle_submaps_extends:
  "\<exists>more. fst (handle_submaps env ms requests slices) = requests @ more"
proof (induction ms arbitrary: requests slices)
  case Nil
  then show ?case
    by simp
next
  case (Cons m ms)
  let ?id = "(trajectory_id m, submap_index m)"
  have ext: "\<exists>more. fst (handle_submaps env ms (requests @ [?id]) sl) = requests @ more" for sl
    using Cons.IH [of "requests @ [?id]" sl] by auto
  show ?case
    using Cons.IH [of requests] ext
    by (auto simp: Let_def split: option.splits sum.splits)
qed

lemma stale_slice_requests:
  assumes "slices (trajectory_id m, submap_index m) = Some sl"
    and "version sl \<noteq> submap_version m"
  shows "\<exists>more. fst (handle_submaps env (m # ms) requests slices) =
            requests @ [(trajectory_id m, submap_index m)] @ more"
proof -
  let ?id = "(trajectory_id m, submap_index m)"
  have ext: "\<exists>more. fst (handle_submaps env ms (requests @ [?id]) sl') =
               requests @ [?id] @ more" for sl'
    using handle_submaps_extends [of env ms "requests @ [?id]" sl'] by auto
  show ?thesis
    using assms ext
    by (auto simp: Let_def up_to_date_def split: option.splits sum.splits)
qed

section \<open>Facts about the steps of a tile\<close>

lemma recently_queried_elapsed:
  "recently_queried now s = (now - last_query_timestamp s < 250)"
  by (auto simp: recently_queried_def kMinQueryDelayInMs_def)

lemma newer_version_available_iff:
  "newer_version_available s =
     (\<not> (\<exists>t. submap_textures s = Some t
            \<and> textures_version t = DrawableSubmap.metadata_version s))"
  by (simp add: newer_version_available_def split: option.splits)

lemma exec_keeps_invariant:
  "flag_counts_tasks s \<Longrightarrow> exec e s = Some s' \<Longrightarrow> flag_counts_tasks s'"
  by (cases e)
     (auto simp: flag_counts_tasks_def Update_def MaybeFetchTexture_def SetAlpha_def Let_def
        fetch_task_completion_def clear_query_in_progress_def install_textures_def
        emit_RequestSucceeded_def task_finished_def split: if_splits option.splits)

lemma run_keeps_invariant:
  "flag_counts_tasks s \<Longrightarrow> run s es = Some s' \<Longrightarrow> flag_counts_tasks s'"
proof (induction es arbitrary: s)
  case Nil
  then show ?case
    by simp
next
  case (Cons e es)
  then show ?case
    by (auto split: option.splits dest: exec_keeps_invariant)
qed

lemma exec_while_in_flight:
  "query_in_progress s \<Longrightarrow> \<not> is_completion e \<Longrightarrow>
     \<exists>s'. exec e s = Some s' \<and> query_in_progress s' \<and> running_tasks s' = running_tasks s"
  by (cases e) (auto simp: Update_def MaybeFetchTexture_def SetAlpha_def Let_def)

lemma run_while_in_flight:
  "query_in_progress s \<Longrightarrow> \<forall>e \<in> set es. \<not> is_completion e \<Longrightarrow>
     \<exists>s'. run s es = Some s' \<and> query_in_progress s' \<and> running_tasks s' = running_tasks s"
proof (induction es arbitrary: s)
  case Nil
  then show ?case
    by simp
next
  case (Cons e es)
  from Cons.prems obtain s1 where s1: "exec e s = Some s1" "query_in_progress s1"
      "running_tasks s1 = running_tasks s"
    using exec_while_in_flight [of s e] by auto
  from Cons.IH [OF s1(2)] Cons.prems(2) obtain s' where
    "run s1 es = Some s'" "query_in_progress s'" "running_tasks s' = running_tasks s1"
    by auto
  with s1 show ?case
    by simp
qed

lemma in_flight_refuses: "query_in_progress s \<Longrightarrow> MaybeFetchTexture now s = (False, s)"
  by (simp add: MaybeFetchTexture_def)

lemma accepted_sets_flag:
  "MaybeFetchTexture now s = (True, s1) \<Longrightarrow>
     query_in_progress s1 \<and> running_tasks s1 = running_tasks s + 1 \<and> \<not> query_in_progress s"
  by (auto simp: MaybeFetchTexture_def split: if_splits)

section \<open>The claims about fetch scheduling\<close>

text \<open>
  C2. \<^verbatim>\<open>MaybeFetchTexture\<close> returns false and changes nothing when the cached textures have
  the version of the current metadata, or fewer than 250 ms have passed since the last
  attempt, or a query is in progress. In every other case it returns true, and the
  members it leaves behind (the whole body runs under the mutex) hold the time of this
  attempt and the in-progress flag, with one more task running.
\<close>

theorem MaybeFetchTexture_contract:
  "MaybeFetchTexture now s =
     (if (\<exists>t. submap_textures s = Some t
             \<and> textures_version t = DrawableSubmap.metadata_version s)
         \<or> now - last_query_timestamp s < 250
         \<or> query_in_progress s
      then (False, s)
      else (True, s\<lparr>query_in_progress := True,
                     last_query_timestamp := now,
                     running_tasks := running_tasks s + 1\<rparr>))"
  unfolding MaybeFetchTexture_def recently_queried_elapsed newer_version_available_iff
  by simp

theorem MaybeFetchTexture_contract_witness:
  "MaybeFetchTexture 1000 tile0 =
     (True, tile0\<lparr>query_in_progress := True, last_query_timestamp := 1000,
                  running_tasks := 1\<rparr>)
   \<and> MaybeFetchTexture 249 tile0 = (False, tile0)
   \<and> MaybeFetchTexture 1000 (tile0\<lparr>query_in_progress := True\<rparr>) =
       (False, tile0\<lparr>query_in_progress := True\<rparr>)
   \<and> MaybeFetchTexture 1000
        (tile0\<lparr>submap_textures := Some data_v3, DrawableSubmap.metadata_version := 3\<rparr>) =
       (False, tile0\<lparr>submap_textures := Some data_v3, DrawableSubmap.metadata_version := 3\<rparr>)"
  using MaybeFetchTexture_contract [of 1000 tile0] MaybeFetchTexture_contract [of 249 tile0]
    MaybeFetchTexture_contract [of 1000 "tile0\<lparr>query_in_progress := True\<rparr>"]
    MaybeFetchTexture_contract [of 1000
      "tile0\<lparr>submap_textures := Some data_v3, DrawableSubmap.metadata_version := 3\<rparr>"]
  by (simp add: tile0_def constructed_def data_v3_def)

text \<open>
  C3. A tile whose stored texture version differs from the version just delivered, lower
  versions included, is eligible for a fetch. In the plugin, after \<^verbatim>\<open>Update\<close> a newer version
  counts as available, and \<^verbatim>\<open>MaybeFetchTexture\<close> accepts when the tile was not queried
  recently and no query is in progress. In the node, a slice with a different version is
  not up to date and a request for its id is issued.
\<close>

theorem differing_version_is_fetch_eligible:
  "(submap_textures s = Some t \<and> textures_version t \<noteq> v \<longrightarrow>
      newer_version_available (Update v p s)
      \<and> (\<not> recently_queried now s \<and> \<not> query_in_progress s \<longrightarrow>
           fst (MaybeFetchTexture now (Update v p s)) = True))
   \<and> (slices (trajectory_id m, submap_index m) = Some sl \<and> version sl \<noteq> submap_version m \<longrightarrow>
        \<not> up_to_date (sl\<lparr>SubmapSlice.pose := entry_pose m,
                           SubmapSlice.metadata_version := submap_version m\<rparr>) (submap_version m)
        \<and> (\<exists>more. fst (handle_submaps env (m # ms) requests slices) =
              requests @ [(trajectory_id m, submap_index m)] @ more))"
proof -
  have tile: "newer_version_available (Update v p s)
      \<and> (\<not> recently_queried now s \<and> \<not> query_in_progress s \<longrightarrow>
           fst (MaybeFetchTexture now (Update v p s)) = True)"
    if "submap_textures s = Some t" "textures_version t \<noteq> v"
    using that
    by (simp add: newer_version_available_def Update_def MaybeFetchTexture_def
        recently_queried_def)
  have node: "\<not> up_to_date (sl\<lparr>SubmapSlice.pose := entry_pose m,
                  SubmapSlice.metadata_version := submap_version m\<rparr>) (submap_version m)"
    if "version sl \<noteq> submap_version m"
    using that by (simp add: up_to_date_def)
  show ?thesis
    using tile node stale_slice_requests [of slices m sl env ms requests] by blast
qed

theorem differing_version_is_fetch_eligible_witness:
  "newer_version_available (Update 2 identity_pose (tile0\<lparr>submap_textures := Some data_v5\<rparr>))
   \<and> fst (MaybeFetchTexture 1000
            (Update 2 identity_pose (tile0\<lparr>submap_textures := Some data_v5\<rparr>)))
   \<and> fst (HandleSubmapList failing_services list_v2 node_v5) = [(0, 1)]"
proof -
  let ?s = "tile0\<lparr>submap_textures := Some data_v5\<rparr>"
  have a: "submap_textures ?s = Some data_v5 \<and> textures_version data_v5 \<noteq> 2"
    by (simp add: data_v5_def)
  have b: "\<not> recently_queried 1000 ?s \<and> \<not> query_in_progress ?s"
    by (simp add: recently_queried_def kMinQueryDelayInMs_def tile0_def constructed_def)
  have c: "submap_slices node_v5 (trajectory_id entry_v2, submap_index entry_v2) = Some slice_v5
           \<and> version slice_v5 \<noteq> submap_version entry_v2"
    by (simp add: node_v5_def entry_v2_def slice_v5_def)
  from differing_version_is_fetch_eligible
    [of ?s data_v5 2 identity_pose 1000 "submap_slices node_v5" entry_v2 slice_v5
        failing_services "[]" "[]"]
    a b c
  have tile: "newer_version_available (Update 2 identity_pose ?s)
      \<and> fst (MaybeFetchTexture 1000 (Update 2 identity_pose ?s))"
    and "\<exists>more. fst (handle_submaps failing_services [entry_v2] [] (submap_slices node_v5)) =
              [] @ [(trajectory_id entry_v2, submap_index entry_v2)] @ more"
    by blast+
  moreover have "fst (HandleSubmapList failing_services list_v2 node_v5) = [(0, 1)]"
    by (simp add: HandleSubmapList_def failing_services_def list_v2_def entry_v2_def
        node_v5_def slice_v5_def new_slice_def up_to_date_def node0_def Let_def)
  ultimately show ?thesis
    by simp
qed

text \<open>
  C8. At most one fetch is in flight per tile. From any state in which the flag and the
  number of running tasks agree, every interleaving of steps leads to a state with at most
  one running task; and once \<^verbatim>\<open>MaybeFetchTexture\<close> has returned true there, every later call
  returns false and changes nothing for as long as no task completes, whatever metadata
  updates, clock values and other calls come in between.
\<close>

theorem at_most_one_fetch_in_flight:
  assumes "flag_counts_tasks s" and "run s es = Some s'"
  shows "running_tasks s' \<le> 1
     \<and> (\<forall>now later s1 es2.
          MaybeFetchTexture now s' = (True, s1) \<longrightarrow> (\<forall>e \<in> set es2. \<not> is_completion e) \<longrightarrow>
          (\<exists>s2. run s1 es2 = Some s2 \<and> MaybeFetchTexture later s2 = (False, s2)
                \<and> running_tasks s2 = 1))"
proof -
  have inv: "flag_counts_tasks s'"
    using assms by (rule run_keeps_invariant)
  then have bound: "running_tasks s' \<le> 1"
    by (simp add: flag_counts_tasks_def split: if_splits)
  have "\<exists>s2. run s1 es2 = Some s2 \<and> MaybeFetchTexture later s2 = (False, s2)
          \<and> running_tasks s2 = 1"
    if acc: "MaybeFetchTexture now s' = (True, s1)"
      and nc: "\<forall>e \<in> set es2. \<not> is_completion e"
    for now later s1 es2
  proof -
    from accepted_sets_flag [OF acc] have f: "query_in_progress s1"
      and r: "running_tasks s1 = running_tasks s' + 1" and nf: "\<not> query_in_progress s'"
      by auto
    from inv nf have "running_tasks s' = 0"
      by (simp add: flag_counts_tasks_def)
    with r have r1: "running_tasks s1 = 1"
      by simp
    from run_while_in_flight [OF f nc] obtain s2 where
      "run s1 es2 = Some s2" "query_in_progress s2" "running_tasks s2 = running_tasks s1"
      by auto
    with r1 in_flight_refuses [of s2 later] show ?thesis
      by simp
  qed
  with bound show ?thesis
    by blast
qed

theorem at_most_one_fetch_in_flight_witness:
  "flag_counts_tasks tile0
   \<and> run tile0 [EvUpdate 3 identity_pose] = Some tile_listed
   \<and> MaybeFetchTexture 1000 tile_listed = (True, tile_fetching)
   \<and> run tile_fetching [EvUpdate 4 identity_pose, EvMaybeFetch 5000] = Some tile_fetching_newer
   \<and> MaybeFetchTexture 9000 tile_fetching_newer = (False, tile_fetching_newer)
   \<and> running_tasks tile_fetching_newer = 1"
proof -
  have a: "flag_counts_tasks tile0"
    by (simp add: flag_counts_tasks_def tile0_def constructed_def)
  have b: "run tile0 [EvUpdate 3 identity_pose] = Some tile_listed"
    by (simp add: tile_listed_def tile0_def constructed_def Update_def)
  have c: "MaybeFetchTexture 1000 tile_listed = (True, tile_fetching)"
    by (simp add: MaybeFetchTexture_def tile_fetching_def tile_listed_def tile0_def
        constructed_def newer_version_available_def recently_queried_def
        kMinQueryDelayInMs_def)
  have d: "\<forall>e \<in> set [EvUpdate 4 identity_pose, EvMaybeFetch 5000]. \<not> is_completion e"
    by simp
  have e: "run tile_fetching [EvUpdate 4 identity_pose, EvMaybeFetch 5000] =
             Some tile_fetching_newer"
    by (simp add: MaybeFetchTexture_def tile_fetching_newer_def tile_fetching_def
        tile_listed_def tile0_def constructed_def Update_def)
  from at_most_one_fetch_in_flight [OF a b] c d
  have "\<exists>s2. run tile_fetching [EvUpdate 4 identity_pose, EvMaybeFetch 5000] = Some s2
          \<and> MaybeFetchTexture 9000 s2 = (False, s2) \<and> running_tasks s2 = 1"
    by blast
  with e have "MaybeFetchTexture 9000 tile_fetching_newer = (False, tile_fetching_newer)
      \<and> running_tasks tile_fetching_newer = 1"
    by simp
  with a b c e show ?thesis
    by simp
qed


section \<open>The claims about the completion of a fetch task\<close>

text \<open>
  C6. The locked final part of a fetch task clears the in-progress flag whatever the remote
  call returned. After a failed fetch the tile can therefore be fetched again: if a newer
  version is available and the minimum delay has passed, the next \<^verbatim>\<open>MaybeFetchTexture\<close>
  returns true.
\<close>

theorem completion_clears_in_flight:
  "\<not> query_in_progress (fetch_task_completion fetched s)
   \<and> (newer_version_available s \<and> \<not> recently_queried now s \<longrightarrow>
        fst (MaybeFetchTexture now (fetch_task_completion None s)) = True)"
  by (auto simp: fetch_task_completion_def clear_query_in_progress_def install_textures_def
      emit_RequestSucceeded_def task_finished_def MaybeFetchTexture_def Let_def
      newer_version_available_def recently_queried_def split: option.splits)

theorem completion_clears_in_flight_witness:
  "query_in_progress tile_fetching
   \<and> \<not> query_in_progress (fetch_task_completion None tile_fetching)
   \<and> \<not> query_in_progress (fetch_task_completion (Some data_v3) tile_fetching)
   \<and> newer_version_available tile_fetching \<and> \<not> recently_queried 1250 tile_fetching
   \<and> fst (MaybeFetchTexture 1250 (fetch_task_completion None tile_fetching)) = True"
proof -
  have a: "query_in_progress tile_fetching"
    by (simp add: tile_fetching_def)
  have b: "newer_version_available tile_fetching \<and> \<not> recently_queried 1250 tile_fetching"
    by (simp add: newer_version_available_def recently_queried_def kMinQueryDelayInMs_def
        tile_fetching_def tile_listed_def tile0_def constructed_def)
  show ?thesis
    using completion_clears_in_flight [of None tile_fetching 1250]
      completion_clears_in_flight [of "Some data_v3" tile_fetching 1250] a b
    by simp
qed

text \<open>
  C7. When a fetch task completes, the textures are installed and the signal is emitted
  exactly when the fetch returned data with at least one texture. In that case the value of
  \<^verbatim>\<open>submap_textures_\<close> at the moment of the emission is already the new data, so the slot
  \<^verbatim>\<open>UpdateSceneNode\<close> run on the resulting state hands the first new texture to the renderer.
  In every other case neither the stored textures nor the list of emissions changes.
\<close>

theorem install_and_notify_iff_data:
  "(fetched = Some t \<and> textures t = x # rest \<longrightarrow>
      submap_textures (fetch_task_completion fetched s) = Some t
      \<and> emitted (fetch_task_completion fetched s) = emitted s @ [Some t]
      \<and> UpdateSceneNode (fetch_task_completion fetched s) = Inr x)
   \<and> (fetched = None \<or> (\<exists>u. fetched = Some u \<and> textures u = []) \<longrightarrow>
        submap_textures (fetch_task_completion fetched s) = submap_textures s
        \<and> emitted (fetch_task_completion fetched s) = emitted s)
   \<and> (emitted (fetch_task_completion fetched s) \<noteq> emitted s) =
       (\<exists>u. fetched = Some u \<and> textures u \<noteq> [])"
  by (auto simp: fetch_task_completion_def clear_query_in_progress_def install_textures_def
      emit_RequestSucceeded_def task_finished_def UpdateSceneNode_def Let_def
      split: option.splits list.splits)

theorem install_and_notify_iff_data_witness:
  "submap_textures (fetch_task_completion (Some data_v3) tile_fetching) = Some data_v3
   \<and> emitted (fetch_task_completion (Some data_v3) tile_fetching) = [Some data_v3]
   \<and> UpdateSceneNode (fetch_task_completion (Some data_v3) tile_fetching) = Inr one_texture
   \<and> submap_textures (fetch_task_completion None tile_fetching) = None
   \<and> emitted (fetch_task_completion None tile_fetching) = []
   \<and> emitted (fetch_task_completion (Some empty_v5) tile_fetching) = []"
proof -
  have a: "textures data_v3 = one_texture # []"
    by (simp add: data_v3_def)
  have b: "textures empty_v5 = []"
    by (simp add: empty_v5_def)
  have c: "emitted tile_fetching = [] \<and> submap_textures tile_fetching = None"
    by (simp add: tile_fetching_def tile_listed_def tile0_def constructed_def)
  show ?thesis
    using install_and_notify_iff_data [of "Some data_v3" data_v3 one_texture "[]" tile_fetching]
      install_and_notify_iff_data [of None data_v3 one_texture "[]" tile_fetching]
      install_and_notify_iff_data [of "Some empty_v5" data_v3 one_texture "[]" tile_fetching]
      a b c
    by simp
qed

text \<open>
  C4, as the code has it. A fetch result with an empty texture list is handled like a
  failed fetch by the plugin's fetch task: the members end up exactly as after a failure,
  so the stored textures are unchanged, nothing is emitted, the in-progress flag is cleared
  and a later \<^verbatim>\<open>MaybeFetchTexture\<close> can accept again. In the node it is not:
  \<^verbatim>\<open>CHECK(!fetched_textures->textures.empty())\<close> fails, so \<^verbatim>\<open>HandleSubmapList\<close> aborts at the
  first listed tile that is fetched with such a result.
\<close>

theorem empty_texture_list_handling:
  "textures t = [] \<longrightarrow>
     fetch_task_completion (Some t) s = fetch_task_completion None s
     \<and> submap_textures (fetch_task_completion (Some t) s) = submap_textures s
     \<and> emitted (fetch_task_completion (Some t) s) = emitted s
     \<and> \<not> query_in_progress (fetch_task_completion (Some t) s)
     \<and> (newer_version_available s \<and> \<not> recently_queried now s \<longrightarrow>
          fst (MaybeFetchTexture now (fetch_task_completion (Some t) s)))
     \<and> install_fetched env t sl = Inl CheckFailed
     \<and> (\<not> up_to_date (case slices (trajectory_id m, submap_index m) of
                          None \<Rightarrow> new_slice | Some old \<Rightarrow> old) (submap_version m)
          \<and> fetch env (length requests) (trajectory_id m, submap_index m) = Some t \<longrightarrow>
          handle_submaps env (m # ms) requests slices =
            (requests @ [(trajectory_id m, submap_index m)], Inl CheckFailed))"
proof
  assume e: "textures t = []"
  have same: "fetch_task_completion (Some t) s = fetch_task_completion None s"
    using e by (simp add: fetch_task_completion_def)
  have none: "submap_textures (fetch_task_completion None s) = submap_textures s
     \<and> emitted (fetch_task_completion None s) = emitted s
     \<and> \<not> query_in_progress (fetch_task_completion None s)"
    by (simp add: fetch_task_completion_def clear_query_in_progress_def task_finished_def)
  have retry: "fst (MaybeFetchTexture now (fetch_task_completion None s))"
    if "newer_version_available s" "\<not> recently_queried now s"
    using that
    by (auto simp: fetch_task_completion_def clear_query_in_progress_def task_finished_def
        MaybeFetchTexture_def newer_version_available_def recently_queried_def
        split: option.splits)
  have abort: "install_fetched env t sl = Inl CheckFailed"
    using e by (simp add: install_fetched_def)
  have node: "handle_submaps env (m # ms) requests slices =
            (requests @ [(trajectory_id m, submap_index m)], Inl CheckFailed)"
    if "\<not> up_to_date (case slices (trajectory_id m, submap_index m) of
                          None \<Rightarrow> new_slice | Some old \<Rightarrow> old) (submap_version m)"
      "fetch env (length requests) (trajectory_id m, submap_index m) = Some t"
    using that e by (simp add: Let_def up_to_date_metadata install_fetched_def)
  show "fetch_task_completion (Some t) s = fetch_task_completion None s
     \<and> submap_textures (fetch_task_completion (Some t) s) = submap_textures s
     \<and> emitted (fetch_task_completion (Some t) s) = emitted s
     \<and> \<not> query_in_progress (fetch_task_completion (Some t) s)
     \<and> (newer_version_available s \<and> \<not> recently_queried now s \<longrightarrow>
          fst (MaybeFetchTexture now (fetch_task_completion (Some t) s)))
     \<and> install_fetched env t sl = Inl CheckFailed
     \<and> (\<not> up_to_date (case slices (trajectory_id m, submap_index m) of
                          None \<Rightarrow> new_slice | Some old \<Rightarrow> old) (submap_version m)
          \<and> fetch env (length requests) (trajectory_id m, submap_index m) = Some t \<longrightarrow>
          handle_submaps env (m # ms) requests slices =
            (requests @ [(trajectory_id m, submap_index m)], Inl CheckFailed))"
    unfolding same using none retry abort node by blast
qed

theorem empty_texture_list_handling_witness:
  "textures empty_v5 = []
   \<and> fetch_task_completion (Some empty_v5) tile_fetching = fetch_task_completion None tile_fetching
   \<and> submap_textures (fetch_task_completion (Some empty_v5) tile_fetching) = None
   \<and> \<not> query_in_progress (fetch_task_completion (Some empty_v5) tile_fetching)
   \<and> fst (MaybeFetchTexture 1250 (fetch_task_completion (Some empty_v5) tile_fetching))
   \<and> handle_submaps empty_list_services [entry_v2] [] (submap_slices node_v5) =
       ([(0, 1)], Inl CheckFailed)"
proof -
  have a: "textures empty_v5 = []"
    by (simp add: empty_v5_def)
  have b: "newer_version_available tile_fetching \<and> \<not> recently_queried 1250 tile_fetching"
    by (simp add: newer_version_available_def recently_queried_def kMinQueryDelayInMs_def
        tile_fetching_def tile_listed_def tile0_def constructed_def)
  have c: "submap_textures tile_fetching = None"
    by (simp add: tile_fetching_def tile_listed_def tile0_def constructed_def)
  have d: "\<not> up_to_date (case submap_slices node_v5 (trajectory_id entry_v2, submap_index entry_v2) of
                          None \<Rightarrow> new_slice | Some old \<Rightarrow> old) (submap_version entry_v2)
          \<and> fetch empty_list_services (length ([] :: SubmapId list))
               (trajectory_id entry_v2, submap_index entry_v2) = Some empty_v5"
    by (simp add: node_v5_def entry_v2_def slice_v5_def up_to_date_def empty_list_services_def)
  have f: "(trajectory_id entry_v2, submap_index entry_v2) = (0, 1)"
    by (simp add: entry_v2_def)
  from empty_texture_list_handling
      [of empty_v5 tile_fetching 1250 empty_list_services slice_v5 "submap_slices node_v5"
          entry_v2 "[]" "[]"] a b d
  have "fetch_task_completion (Some empty_v5) tile_fetching =
          fetch_task_completion None tile_fetching
     \<and> submap_textures (fetch_task_completion (Some empty_v5) tile_fetching) =
          submap_textures tile_fetching
     \<and> \<not> query_in_progress (fetch_task_completion (Some empty_v5) tile_fetching)
     \<and> fst (MaybeFetchTexture 1250 (fetch_task_completion (Some empty_v5) tile_fetching))
     \<and> handle_submaps empty_list_services (entry_v2 # []) [] (submap_slices node_v5) =
          ([] @ [(trajectory_id entry_v2, submap_index entry_v2)], Inl CheckFailed)"
    by blast
  with a c f show ?thesis
    by (auto simp del: handle_submaps.simps)
qed

text \<open>
  C4, as stated, fails in the node: for the listed tile \<open>(0, 1)\<close> whose stored version
  differs from the listed one, a fetch result with an empty texture list makes
  \<^verbatim>\<open>HandleSubmapList\<close> abort on its check after the request, while a failed fetch does not.
\<close>

theorem empty_texture_list_aborts_node:
  "HandleSubmapList empty_list_services list_v2 node_v5 = ([(0, 1)], Inl CheckFailed)
   \<and> snd (HandleSubmapList failing_services list_v2 node_v5) \<noteq> Inl CheckFailed"
  by (simp add: HandleSubmapList_def failing_services_def empty_list_services_def list_v2_def
      entry_v2_def node_v5_def slice_v5_def new_slice_def up_to_date_def node0_def
      install_fetched_def empty_v5_def Let_def)

section \<open>Facts about rounding\<close>

lemma pow2_less_iff: "((2::real) powi m < 2 powi n) = (m < n)"
proof
  assume less: "(2::real) powi m < 2 powi n"
  show "m < n"
  proof (rule ccontr)
    assume "\<not> m < n"
    then have "n \<le> m"
      by simp
    then have "(2::real) powi n \<le> 2 powi m"
      by (intro power_int_increasing) simp_all
    with less show False
      by simp
  qed
next
  assume "m < n"
  then show "(2::real) powi m < 2 powi n"
    by (intro power_int_strict_increasing) simp_all
qed

lemma pow2_le_iff: "((2::real) powi m \<le> 2 powi n) = (m \<le> n)"
  using pow2_less_iff [of n m] by auto

lemma round_half_even_of_int: "round_half_even (of_int n) = n"
  by (simp add: round_half_even_def)

lemma round_half_even_bounds:
  "\<lfloor>y\<rfloor> \<le> round_half_even y" "round_half_even y \<le> \<lfloor>y\<rfloor> + 1"
  by (simp_all add: round_half_even_def Let_def)

lemma round_half_even_mono:
  assumes "x \<le> y"
  shows "round_half_even x \<le> round_half_even y"
proof (cases "\<lfloor>x\<rfloor> = \<lfloor>y\<rfloor>")
  case True
  with assms show ?thesis
    by (auto simp: round_half_even_def Let_def)
next
  case False
  with assms have "\<lfloor>x\<rfloor> < \<lfloor>y\<rfloor>"
    using floor_mono [of x y] by simp
  then have "\<lfloor>x\<rfloor> + 1 \<le> \<lfloor>y\<rfloor>"
    by simp
  with round_half_even_bounds(2) [of x] round_half_even_bounds(1) [of y] show ?thesis
    by linarith
qed

lemma round_half_even_minus: "round_half_even (- y) = - round_half_even y"
proof (cases "y \<in> \<int>")
  case True
  then obtain n where "y = of_int n"
    by (auto elim: Ints_cases)
  then show ?thesis
    using round_half_even_of_int [of "- n"] round_half_even_of_int [of n] by simp
next
  case False
  then have "y \<noteq> of_int \<lfloor>y\<rfloor>"
    by (metis Ints_of_int)
  then have fl: "\<lfloor>- y\<rfloor> = - \<lfloor>y\<rfloor> - 1"
    by (simp add: floor_minus ceiling_altdef)
  have "even (- \<lfloor>y\<rfloor> - 1) = odd \<lfloor>y\<rfloor>"
    by simp
  then show ?thesis
    unfolding round_half_even_def Let_def fl
    by (auto simp: algebra_simps)
qed

lemma round_half_even_above_odd:
  assumes "odd k"
  shows "(k < round_half_even y) = (of_int k + 1 / 2 \<le> y)"
proof
  assume above: "k < round_half_even y"
  show "of_int k + 1 / 2 \<le> y"
  proof (rule ccontr)
    assume "\<not> of_int k + 1 / 2 \<le> y"
    then have lt: "y < of_int k + 1 / 2"
      by simp
    have le: "\<lfloor>y\<rfloor> \<le> k"
      using lt by (simp add: floor_le_iff)
    have "round_half_even y \<le> k"
    proof (cases "\<lfloor>y\<rfloor> = k")
      case True
      with lt have "y - of_int \<lfloor>y\<rfloor> < 1 / 2"
        by simp
      then show ?thesis
        using True by (simp add: round_half_even_def Let_def)
    next
      case False
      with le have "\<lfloor>y\<rfloor> + 1 \<le> k"
        by simp
      with round_half_even_bounds(2) [of y] show ?thesis
        by linarith
    qed
    with above show False
      by simp
  qed
next
  assume ge: "of_int k + 1 / 2 \<le> y"
  then have le: "k \<le> \<lfloor>y\<rfloor>"
    by (simp add: le_floor_iff)
  show "k < round_half_even y"
  proof (cases "\<lfloor>y\<rfloor> = k")
    case True
    with ge have "1 / 2 \<le> y - of_int \<lfloor>y\<rfloor>"
      by simp
    then show ?thesis
      using True assms by (auto simp: round_half_even_def Let_def)
  next
    case False
    with le have "k < \<lfloor>y\<rfloor>"
      by simp
    with round_half_even_bounds(1) [of y] show ?thesis
      by linarith
  qed
qed

lemma expo_down_props:
  "a < 2 powi (e + 1) \<Longrightarrow>
     expo_down lo e a \<le> e \<and> a < 2 powi (expo_down lo e a + 1)
     \<and> (2 powi (expo_down lo e a) \<le> a \<or> expo_down lo e a \<le> lo)"
proof (induction lo e a rule: expo_down.induct)
  case (1 lo e a)
  show ?case
  proof (cases "e \<le> lo \<or> 2 powi e \<le> a")
    case True
    then show ?thesis
      using "1.prems" by (auto simp: expo_down.simps [of lo e a])
  next
    case False
    then have "a < 2 powi (e - 1 + 1)"
      by simp
    from "1.IH" [OF False this] False show ?thesis
      by (simp add: expo_down.simps [of lo e a])
  qed
qed

lemma expo_up_props:
  "2 powi e \<le> a \<Longrightarrow>
     e \<le> expo_up hi e a \<and> 2 powi (expo_up hi e a) \<le> a
     \<and> (a < 2 powi (expo_up hi e a + 1) \<or> hi \<le> expo_up hi e a)"
proof (induction hi e a rule: expo_up.induct)
  case (1 hi e a)
  show ?case
  proof (cases "hi \<le> e \<or> a < 2 powi (e + 1)")
    case True
    then show ?thesis
      using "1.prems" by (auto simp: expo_up.simps [of hi e a])
  next
    case False
    then have "2 powi (e + 1) \<le> a"
      by simp
    from "1.IH" [OF False this] False show ?thesis
      by (simp add: expo_up.simps [of hi e a])
  qed
qed

lemma exponent_below_one:
  assumes "0 < a" and "a < 1"
  shows "exponent f a \<le> - 1" and "a < 2 powi (exponent f a + 1)"
    and "2 powi (exponent f a) \<le> a \<or> exponent f a \<le> emin f"
proof -
  have "a < 2 powi (- 1 + 1)"
    using assms by simp
  from expo_down_props [OF this, of "emin f"] assms
  show "exponent f a \<le> - 1" and "a < 2 powi (exponent f a + 1)"
    and "2 powi (exponent f a) \<le> a \<or> exponent f a \<le> emin f"
    by (simp_all add: exponent_def)
qed

lemma exponent_from_one:
  assumes "1 \<le> a"
  shows "0 \<le> exponent f a" and "2 powi (exponent f a) \<le> a"
proof -
  have "2 powi 0 \<le> a"
    using assms by simp
  from expo_up_props [OF this, of "emax f"] assms
  show "0 \<le> exponent f a" and "2 powi (exponent f a) \<le> a"
    by (simp_all add: exponent_def)
qed

lemma round_to_minus: "round_to f (- x) = - round_to f x"
  by (simp add: round_to_def Let_def round_half_even_minus)

lemma round_half_even_nonneg: "0 \<le> y \<Longrightarrow> 0 \<le> round_half_even y"
  using round_half_even_mono [of 0 y] round_half_even_of_int [of 0] by simp

lemma round_to_nonneg: "0 \<le> x \<Longrightarrow> 0 \<le> round_to f x"
  by (simp add: round_to_def Let_def round_half_even_nonneg)

lemma abs_round_to: "\<bar>round_to f x\<bar> = round_to f \<bar>x\<bar>"
proof (cases "0 \<le> x")
  case True
  then show ?thesis
    using round_to_nonneg [of x f] by simp
next
  case False
  then have "0 \<le> - x"
    by simp
  then have "0 \<le> round_to f (- x)"
    by (rule round_to_nonneg)
  with False show ?thesis
    by (simp add: round_to_minus)
qed

lemma pow2_quotient:
  assumes "q \<le> k"
  shows "(2::real) powi k / 2 powi q = of_int (2 ^ nat (k - q))"
proof -
  have "(2::real) powi k / 2 powi q = 2 powi (k - q)"
    by (simp add: power_int_diff)
  also have "\<dots> = 2 ^ nat (k - q)"
    using assms by (simp add: power_int_nonneg_exp)
  finally show ?thesis
    by simp
qed

lemma round_to_le_pow2:
  assumes "0 < a" and "a \<le> 2 powi k"
    and "exponent f a - (int (precision f) - 1) \<le> k"
  shows "round_to f a \<le> 2 powi k"
proof -
  define q where "q = exponent f \<bar>a\<bar> - (int (precision f) - 1)"
  have qk: "q \<le> k"
    using assms(1,3) by (simp add: q_def)
  have pos: "(0::real) < 2 powi q"
    by simp
  have "a / 2 powi q \<le> 2 powi k / 2 powi q"
    using assms(2) pos by (simp add: divide_right_mono)
  then have "a / 2 powi q \<le> of_int (2 ^ nat (k - q))"
    by (simp only: pow2_quotient [OF qk])
  then have "round_half_even (a / 2 powi q) \<le> 2 ^ nat (k - q)"
    using round_half_even_mono round_half_even_of_int by metis
  then have "real_of_int (round_half_even (a / 2 powi q)) \<le> of_int (2 ^ nat (k - q))"
    by (simp only: of_int_le_iff)
  then have "real_of_int (round_half_even (a / 2 powi q)) \<le> 2 powi k / 2 powi q"
    by (simp only: pow2_quotient [OF qk])
  then have "real_of_int (round_half_even (a / 2 powi q)) * 2 powi q \<le> 2 powi k"
    using pos by (simp add: pos_le_divide_eq)
  then show ?thesis
    using assms(1) by (simp add: round_to_def Let_def q_def)
qed

lemma round_to_ge_pow2:
  assumes "0 < a" and "2 powi k \<le> a"
    and "exponent f a - (int (precision f) - 1) \<le> k"
  shows "2 powi k \<le> round_to f a"
proof -
  define q where "q = exponent f \<bar>a\<bar> - (int (precision f) - 1)"
  have qk: "q \<le> k"
    using assms(1,3) by (simp add: q_def)
  have pos: "(0::real) < 2 powi q"
    by simp
  have "2 powi k / 2 powi q \<le> a / 2 powi q"
    using assms(2) pos by (simp add: divide_right_mono)
  then have "of_int (2 ^ nat (k - q)) \<le> a / 2 powi q"
    by (simp only: pow2_quotient [OF qk])
  then have "2 ^ nat (k - q) \<le> round_half_even (a / 2 powi q)"
    using round_half_even_mono round_half_even_of_int by metis
  then have "of_int (2 ^ nat (k - q)) \<le> real_of_int (round_half_even (a / 2 powi q))"
    by (simp only: of_int_le_iff)
  then have "2 powi k / 2 powi q \<le> real_of_int (round_half_even (a / 2 powi q))"
    by (simp only: pow2_quotient [OF qk])
  then have "2 powi k \<le> real_of_int (round_half_even (a / 2 powi q)) * 2 powi q"
    using pos by (simp add: pos_divide_le_eq)
  then show ?thesis
    using assms(1) by (simp add: round_to_def Let_def q_def)
qed

lemma flt_small:
  assumes "0 < a" and "a < 1 / 8"
  shows "flt a \<le> 1 / 8"
proof -
  have "exponent binary32 a \<le> - 1"
    using assms by (intro exponent_below_one) simp_all
  then have "exponent binary32 a - (int (precision binary32) - 1) \<le> - 3"
    by (simp add: binary32_def)
  moreover have "a \<le> 2 powi (- 3)"
    using assms by simp
  ultimately have "round_to binary32 a \<le> 2 powi (- 3)"
    using assms(1) by (intro round_to_le_pow2)
  then show ?thesis
    by (simp add: flt_def)
qed

lemma flt_big:
  assumes "1 / 4 \<le> a"
  shows "1 / 4 \<le> flt a"
proof -
  have pos: "0 < a"
    using assms by simp
  have low: "(2::real) powi (- 2) \<le> a"
    using assms by simp
  have e: "- 2 \<le> exponent binary32 a \<and> 2 powi (exponent binary32 a) \<le> a"
  proof (cases "1 \<le> a")
    case True
    from exponent_from_one [OF True, of binary32] show ?thesis
      by simp
  next
    case False
    then have lt: "a < 1"
      by simp
    note p = exponent_below_one [OF pos lt, of binary32]
    from low p(2) have "(2::real) powi (- 2) < 2 powi (exponent binary32 a + 1)"
      by simp
    then have ge: "- 2 \<le> exponent binary32 a"
      by (simp only: pow2_less_iff)
    with p(3) show ?thesis
      by (auto simp: binary32_def)
  qed
  then have "2 powi (exponent binary32 a) \<le> round_to binary32 a"
    using pos by (intro round_to_ge_pow2) (simp_all add: binary32_def)
  moreover have "(2::real) powi (- 2) \<le> 2 powi (exponent binary32 a)"
    using e by (simp only: pow2_le_iff)
  ultimately show ?thesis
    by (simp add: flt_def)
qed

lemma flt_mid:
  assumes "1 / 8 \<le> a" and "a < 1 / 4"
  shows "flt a = of_int (round_half_even (a * 67108864)) / 67108864"
proof -
  have "exponent binary32 a = - 3"
    using assms by (simp add: exponent_def expo_down.simps binary32_def)
  then show ?thesis
    using assms by (simp add: flt_def round_to_def Let_def binary32_def)
qed

lemma threshold_value: "kAlphaUpdateThreshold = 13421773 / 67108864"
  by (simp add: kAlphaUpdateThreshold_def flt_def round_to_def exponent_def binary32_def
      expo_down.simps round_half_even_def Let_def)

lemma flt_exceeds_threshold:
  "(kAlphaUpdateThreshold < \<bar>flt x\<bar>) = (26843547 / 134217728 \<le> \<bar>x\<bar>)"
proof -
  define a where "a = \<bar>x\<bar>"
  have abs: "\<bar>flt x\<bar> = flt a"
    by (simp add: flt_def a_def abs_round_to)
  have a0: "0 \<le> a"
    by (simp add: a_def)
  consider "a = 0" | "0 < a" "a < 1 / 8" | "1 / 8 \<le> a" "a < 1 / 4" | "1 / 4 \<le> a"
    using a0 by linarith
  then have "(13421773 / 67108864 < flt a) = (26843547 / 134217728 \<le> a)"
  proof cases
    case 1
    then show ?thesis
      by (simp add: flt_def round_to_def)
  next
    case 2
    with flt_small [of a] show ?thesis
      by simp
  next
    case 3
    have odd: "odd (13421773 :: int)"
      by simp
    have "(13421773 / 67108864 < flt a) = (13421773 < round_half_even (a * 67108864))"
      unfolding flt_mid [OF 3] by (simp add: pos_less_divide_eq)
    also have "\<dots> = (of_int 13421773 + 1 / 2 \<le> a * 67108864)"
      by (rule round_half_even_above_odd [OF odd])
    also have "\<dots> = (26843547 / 134217728 \<le> a)"
      by auto
    finally show ?thesis .
  next
    case 4
    with flt_big [of a] show ?thesis
      by simp
  qed
  then show ?thesis
    unfolding abs threshold_value a_def .
qed

lemma flt_0_55: "flt (11 / 20) = 9227469 / 16777216"
  by (simp add: flt_def round_to_def exponent_def binary32_def
      expo_down.simps round_half_even_def Let_def)

lemmas rounding_eval = dbl_def flt_def round_to_def exponent_def binary32_def binary64_def
      expo_down.simps expo_up.simps round_half_even_def Let_def

lemma target_alpha_steps:
  assumes "dbl (translation_z (DrawableSubmap.pose s) - z) = d"
    and "dbl (\<bar>d\<bar> - 1) = f" and "dbl (max f 0 / 2) = g" and "dbl (1 - g) = h"
    and "flt (max 0 h) = t"
  shows "target_alpha_of s z = t"
  using assms
  by (simp add: target_alpha_of_def Let_def kFadeOutStartDistanceInMeters_def
      kFadeOutDistanceInMeters_def)

lemma translation_z_tile:
  "translation_z (DrawableSubmap.pose (tile0\<lparr>current_alpha := c\<rparr>)) = 0"
  by (simp add: tile0_def constructed_def identity_pose_def translation_z_def)

lemma target_at_1_9:
  "target_alpha_of (tile0\<lparr>current_alpha := c\<rparr>) double_1_9 = 9227469 / 16777216"
proof (rule target_alpha_steps)
  show "dbl (translation_z (DrawableSubmap.pose (tile0\<lparr>current_alpha := c\<rparr>)) - double_1_9) =
          - (4278419646001971 / 2251799813685248)"
    unfolding translation_z_tile double_1_9_def by (simp add: rounding_eval)
  show "dbl (\<bar>- (4278419646001971 / 2251799813685248)\<bar> - 1) =
          2026619832316723 / 2251799813685248"
    by (simp add: rounding_eval)
  show "dbl (max (2026619832316723 / 2251799813685248) 0 / 2) =
          2026619832316723 / 4503599627370496"
    by (simp add: rounding_eval)
  show "dbl (1 - 2026619832316723 / 4503599627370496) = 2476979795053773 / 4503599627370496"
    by (simp add: rounding_eval)
  show "flt (max 0 (2476979795053773 / 4503599627370496)) = 9227469 / 16777216"
    by (simp add: rounding_eval)
qed

lemma target_at_3: "target_alpha_of (tile0\<lparr>current_alpha := c\<rparr>) 3 = 0"
proof (rule target_alpha_steps)
  show "dbl (translation_z (DrawableSubmap.pose (tile0\<lparr>current_alpha := c\<rparr>)) - 3) = - 3"
    unfolding translation_z_tile by (simp add: rounding_eval)
  show "dbl (\<bar>- 3\<bar> - 1) = 2"
    by (simp add: rounding_eval)
  show "dbl (max 2 0 / 2) = 1"
    by (simp add: rounding_eval)
  show "dbl (1 - 1) = 0"
    by (simp add: rounding_eval)
  show "flt (max 0 0) = 0"
    by (simp add: rounding_eval)
qed

lemma target_at_2_5: "target_alpha_of (tile0\<lparr>current_alpha := c\<rparr>) (5 / 2) = 1 / 4"
proof (rule target_alpha_steps)
  show "dbl (translation_z (DrawableSubmap.pose (tile0\<lparr>current_alpha := c\<rparr>)) - 5 / 2) = - (5 / 2)"
    unfolding translation_z_tile by (simp add: rounding_eval)
  show "dbl (\<bar>- (5 / 2)\<bar> - 1) = 3 / 2"
    by (simp add: rounding_eval)
  show "dbl (max (3 / 2) 0 / 2) = 3 / 4"
    by (simp add: rounding_eval)
  show "dbl (1 - 3 / 4) = 1 / 4"
    by (simp add: rounding_eval)
  show "flt (max 0 (1 / 4)) = 1 / 4"
    by (simp add: rounding_eval)
qed

lemma target_at_boundary:
  "target_alpha_of (tile0\<lparr>current_alpha := c\<rparr>) (36909875 / 16777216) = 13421773 / 33554432"
proof (rule target_alpha_steps)
  show "dbl (translation_z (DrawableSubmap.pose (tile0\<lparr>current_alpha := c\<rparr>))
             - 36909875 / 16777216) = - (36909875 / 16777216)"
    unfolding translation_z_tile by (simp add: rounding_eval)
  show "dbl (\<bar>- (36909875 / 16777216)\<bar> - 1) = 20132659 / 16777216"
    by (simp add: rounding_eval)
  show "dbl (max (20132659 / 16777216) 0 / 2) = 20132659 / 33554432"
    by (simp add: rounding_eval)
  show "dbl (1 - 20132659 / 33554432) = 13421773 / 33554432"
    by (simp add: rounding_eval)
  show "flt (max 0 (13421773 / 33554432)) = 13421773 / 33554432"
    by (simp add: rounding_eval)
qed

section \<open>The claim about the opacity of a tile\<close>

text \<open>
  C5. \<^verbatim>\<open>SetAlpha\<close> keeps the previous alpha unless the target alpha differs from it by more
  than the threshold or the target is exactly 0 or exactly 1: whenever the difference is
  at most 0.2 and the target is neither 0 nor 1 the stored alpha is the previous one, and
  a target of exactly 0 or 1 is always stored. With previous alpha 0.5 and the target
  0.55 (as a \<^verbatim>\<open>float\<close>) the stored alpha stays 0.5. The first part gives the decision of the
  code in exact terms: the threshold is the \<^verbatim>\<open>float\<close> \<open>13421773 / 67108864\<close> and the
  difference is rounded to a \<^verbatim>\<open>float\<close> before the comparison, so the target is stored
  exactly when the difference is at least \<open>26843547 / 134217728\<close>, half a unit in the
  last place above the threshold.
\<close>

theorem SetAlpha_hysteresis:
  "current_alpha (SetAlpha z s) =
     (if 26843547 / 134217728 \<le> \<bar>target_alpha_of s z - current_alpha s\<bar>
         \<or> target_alpha_of s z = 0 \<or> target_alpha_of s z = 1
      then target_alpha_of s z else current_alpha s)
   \<and> (\<bar>target_alpha_of s z - current_alpha s\<bar> \<le> 2 / 10
        \<and> target_alpha_of s z \<noteq> 0 \<and> target_alpha_of s z \<noteq> 1 \<longrightarrow>
        current_alpha (SetAlpha z s) = current_alpha s)
   \<and> (target_alpha_of s z = 0 \<or> target_alpha_of s z = 1 \<longrightarrow>
        current_alpha (SetAlpha z s) = target_alpha_of s z)
   \<and> (current_alpha s = 1 / 2 \<and> target_alpha_of s z = flt (11 / 20) \<longrightarrow>
        current_alpha (SetAlpha z s) = 1 / 2)
   \<and> kAlphaUpdateThreshold = 13421773 / 67108864"
proof -
  have code: "current_alpha (SetAlpha z s) =
     (if 26843547 / 134217728 \<le> \<bar>target_alpha_of s z - current_alpha s\<bar>
         \<or> target_alpha_of s z = 0 \<or> target_alpha_of s z = 1
      then target_alpha_of s z else current_alpha s)"
    by (simp add: SetAlpha_def Let_def flt_exceeds_threshold)
  have kept: "current_alpha (SetAlpha z s) = 1 / 2"
    if "current_alpha s = 1 / 2" "target_alpha_of s z = flt (11 / 20)"
    using that unfolding code flt_0_55 by simp
  show ?thesis
    using code kept threshold_value by auto
qed

theorem SetAlpha_hysteresis_witness:
  "current_alpha tile_half = 1 / 2
   \<and> target_alpha_of tile_half double_1_9 = flt (11 / 20)
   \<and> flt (11 / 20) = 9227469 / 16777216
   \<and> current_alpha (SetAlpha double_1_9 tile_half) = 1 / 2
   \<and> target_alpha_of tile_half 3 = 0
   \<and> current_alpha (SetAlpha 3 tile_half) = 0
   \<and> target_alpha_of tile_half (5 / 2) = 1 / 4
   \<and> current_alpha (SetAlpha (5 / 2) tile_half) = 1 / 4
   \<and> current_alpha tile_fifth = 13421773 / 67108864
   \<and> target_alpha_of tile_fifth (36909875 / 16777216) = 13421773 / 33554432
   \<and> current_alpha (SetAlpha (36909875 / 16777216) tile_fifth) = 13421773 / 67108864"
proof -
  have a: "current_alpha tile_half = 1 / 2" "current_alpha tile_fifth = 13421773 / 67108864"
    by (simp_all add: tile_half_def tile_fifth_def)
  have t: "target_alpha_of tile_half double_1_9 = 9227469 / 16777216"
    "target_alpha_of tile_half 3 = 0" "target_alpha_of tile_half (5 / 2) = 1 / 4"
    "target_alpha_of tile_fifth (36909875 / 16777216) = 13421773 / 33554432"
    unfolding tile_half_def tile_fifth_def
    by (rule target_at_1_9 target_at_3 target_at_2_5 target_at_boundary)+
  show ?thesis
    using SetAlpha_hysteresis [of double_1_9 tile_half]
      SetAlpha_hysteresis [of 3 tile_half]
      SetAlpha_hysteresis [of "5 / 2" tile_half]
      SetAlpha_hysteresis [of "36909875 / 16777216" tile_fifth] a t flt_0_55
    by simp
qed

end
